theory Spec2Isabelle
  imports Complex_Main
begin

section \<open>JavaScript strings\<close>

text \<open>
  A JavaScript string is a sequence of UTF-16 code units. The model uses \<^typ>\<open>string\<close>,
  whose characters are the 256 code units U+0000 to U+00FF (Latin-1), so \<^const>\<open>length\<close>
  is \<^verbatim>\<open>String.prototype.length\<close> on such strings. Strings with code units from U+0100 on
  are outside the model.
\<close>

text \<open>
  \<^verbatim>\<open>String.prototype.toLowerCase\<close> on Latin-1: the letters A to Z and the accented capitals
  U+00C0 to U+00DE (except the multiplication sign U+00D7) move up by 32, every other code
  unit stays.
\<close>

definition toLowerChar :: "char \<Rightarrow> char" where
  "toLowerChar c =
     (let n = (of_char c :: nat)
      in if (65 \<le> n \<and> n \<le> 90) \<or> (192 \<le> n \<and> n \<le> 222 \<and> n \<noteq> 215)
         then char_of (n + 32) else c)"

definition toLowerCase :: "string \<Rightarrow> string" where
  "toLowerCase s = map toLowerChar s"

text \<open>\<^verbatim>\<open>s.startsWith(p)\<close> and \<^verbatim>\<open>s.includes(p)\<close>: \<open>p\<close> occurs in \<open>s\<close> at the front, or anywhere.\<close>

fun startsWith :: "string \<Rightarrow> string \<Rightarrow> bool" where
  "startsWith s [] = True"
| "startsWith [] (p # ps) = False"
| "startsWith (c # cs) (p # ps) = (c = p \<and> startsWith cs ps)"

fun includes_str :: "string \<Rightarrow> string \<Rightarrow> bool" where
  "includes_str [] p = startsWith [] p"
| "includes_str (c # cs) p = (startsWith (c # cs) p \<or> includes_str cs p)"

text \<open>
  \<^verbatim>\<open>String.prototype.trim\<close> removes white space and line terminators from both ends. Among
  the Latin-1 code units these are tab, line feed, vertical tab, form feed, carriage return,
  space and the no-break space U+00A0.
\<close>

definition isWhiteSpace :: "char \<Rightarrow> bool" where
  "isWhiteSpace c = ((of_char c :: nat) \<in> {9, 10, 11, 12, 13, 32, 160})"

definition trim :: "string \<Rightarrow> string" where
  "trim s = rev (dropWhile isWhiteSpace (rev (dropWhile isWhiteSpace s)))"

subsection \<open>URL encoding\<close>

definition hexDigit :: "nat \<Rightarrow> char" where
  "hexDigit n = ''0123456789ABCDEF'' ! (n mod 16)"

definition percentEncodeByte :: "nat \<Rightarrow> string" where
  "percentEncodeByte b = [CHR ''%'', hexDigit (b div 16), hexDigit b]"

text \<open>The UTF-8 bytes of a code unit below U+0100: one byte below U+0080, two from there on.\<close>

definition utf8Bytes :: "char \<Rightarrow> nat list" where
  "utf8Bytes c =
     (let n = (of_char c :: nat)
      in if n < 128 then [n] else [192 + n div 64, 128 + n mod 64])"

definition percentEncode :: "char \<Rightarrow> string" where
  "percentEncode c = concat (map percentEncodeByte (utf8Bytes c))"

definition alphanumerics :: "string" where
  "alphanumerics = ''ABCDEFGHIJKLMNOPQRSTUVWXYZabcdefghijklmnopqrstuvwxyz0123456789''"

text \<open>
  \<^verbatim>\<open>encodeURIComponent\<close> keeps the letters, the digits and \<^verbatim>\<open>- _ . ! ~ * ' ( )\<close>, and
  writes every other code unit as the percent-encoded bytes of its UTF-8 form.
\<close>

definition uriUnreserved :: "string" where
  "uriUnreserved = alphanumerics @ ''-_.!~*'()''"

definition encodeURIComponent :: "string \<Rightarrow> string" where
  "encodeURIComponent s =
     concat (map (\<lambda>c. if c \<in> set uriUnreserved then [c] else percentEncode c) s)"

text \<open>
  \<^verbatim>\<open>decodeURIComponent\<close>, by which the parameters of a page URL are read: a code unit other
  than \<^verbatim>\<open>%\<close> stands for itself, and \<^verbatim>\<open>%\<close> starts the percent-encoded UTF-8 form of a code
  unit, with one byte below U+0080 and two bytes (the first \<^verbatim>\<open>C2\<close> or \<^verbatim>\<open>C3\<close>) from
  U+0080 to U+00FF. The result is \<open>None\<close> where JavaScript throws a \<^verbatim>\<open>URIError\<close>, and for
  the encodings of code points from U+0100 on, which are outside the model.
\<close>

definition hexValue :: "char \<Rightarrow> nat option" where
  "hexValue c =
     (let n = (of_char c :: nat)
      in if 48 \<le> n \<and> n \<le> 57 then Some (n - 48)
         else if 65 \<le> n \<and> n \<le> 70 then Some (n - 55)
         else if 97 \<le> n \<and> n \<le> 102 then Some (n - 87)
         else None)"

fun decodeURIComponent :: "string \<Rightarrow> string option" where
  "decodeURIComponent [] = Some []"
| "decodeURIComponent (c # cs) =
     (if c \<noteq> CHR ''%'' then map_option ((#) c) (decodeURIComponent cs)
      else (case cs of
              h # l # rest \<Rightarrow>
                (case (hexValue h, hexValue l) of
                   (Some a, Some b) \<Rightarrow>
                     let byte = 16 * a + b
                     in if byte < 128
                        then map_option ((#) (char_of byte)) (decodeURIComponent rest)
                        else if byte = 194 \<or> byte = 195
                        then (case rest of
                                p # h2 # l2 # rest2 \<Rightarrow>
                                  (case (hexValue h2, hexValue l2) of
                                     (Some a2, Some b2) \<Rightarrow>
                                       let byte2 = 16 * a2 + b2
                                       in if p = CHR ''%'' \<and> 128 \<le> byte2 \<and> byte2 < 192
                                          then map_option
                                                 ((#) (char_of ((byte - 192) * 64 + (byte2 - 128))))
                                                 (decodeURIComponent rest2)
                                          else None
                                   | _ \<Rightarrow> None)
                              | _ \<Rightarrow> None)
                        else None
                 | _ \<Rightarrow> None)
            | _ \<Rightarrow> None))"

declare decodeURIComponent.simps(2) [simp del]

text \<open>
  \<^verbatim>\<open>URLSearchParams.prototype.toString\<close> serialises name/value pairs as
  \<^verbatim>\<open>application/x-www-form-urlencoded\<close>: a space becomes \<^verbatim>\<open>+\<close>, the letters, the digits
  and \<^verbatim>\<open>* - . _\<close> stay, every other code unit is percent-encoded; pairs are joined by
  \<^verbatim>\<open>&\<close>.
\<close>

definition formEncode :: "string \<Rightarrow> string" where
  "formEncode s =
     concat (map (\<lambda>c. if c = CHR '' '' then ''+''
                       else if c \<in> set (alphanumerics @ ''*-._'') then [c]
                       else percentEncode c) s)"

fun serializeParams :: "(string \<times> string) list \<Rightarrow> string" where
  "serializeParams [] = []"
| "serializeParams [(k, v)] = formEncode k @ ''='' @ formEncode v"
| "serializeParams ((k, v) # kvs) = formEncode k @ ''='' @ formEncode v @ ''&'' @ serializeParams kvs"

section \<open>JavaScript numbers and the runtime\<close>

text \<open>
  A number is \<open>NaN\<close> or a finite value; the infinities and the rounding of doubles are
  outside the model. \<^verbatim>\<open>parseInt\<close>, \<^verbatim>\<open>parseFloat\<close> and the conversion of a number to a
  string are functions of the JavaScript runtime, and \<^verbatim>\<open>NEXT_PUBLIC_API_URL\<close> is a variable
  of the build environment: the model takes them as a parameter, so every theorem holds for
  whatever they are.
\<close>

datatype jsnum = NaN | Num rat

record runtime =
  parseInt :: "string \<Rightarrow> jsnum"
  parseFloat :: "string \<Rightarrow> jsnum"
  numToString :: "jsnum \<Rightarrow> string"
  NEXT_PUBLIC_API_URL :: "string option"

text \<open>Truthiness: a number is falsy when it is 0 or \<open>NaN\<close>, a string when it is empty,
  and \<^verbatim>\<open>undefined\<close> always.\<close>

fun numTruthy :: "jsnum option \<Rightarrow> bool" where
  "numTruthy None = False"
| "numTruthy (Some NaN) = False"
| "numTruthy (Some (Num r)) = (r \<noteq> 0)"

fun strTruthy :: "string option \<Rightarrow> bool" where
  "strTruthy None = False"
| "strTruthy (Some s) = (s \<noteq> [])"

text \<open>\<^verbatim>\<open>n > k\<close> and \<^verbatim>\<open>n + k\<close> for a number \<open>n\<close> and a literal \<open>k\<close>.\<close>

fun numGreater :: "jsnum \<Rightarrow> rat \<Rightarrow> bool" where
  "numGreater NaN k = False"
| "numGreater (Num r) k = (r > k)"

fun numPlus :: "jsnum \<Rightarrow> rat \<Rightarrow> jsnum" where
  "numPlus NaN k = NaN"
| "numPlus (Num r) k = Num (r + k)"

text \<open>
  One runtime, for evaluating the model on examples: no API URL is configured, integers are
  printed in decimal, and a string of decimal digits is parsed to its value, as JavaScript
  does; any other string is taken as not a number.
\<close>

fun decimal :: "nat \<Rightarrow> string" where
  "decimal n = (if n < 10 then [char_of (48 + n)] else decimal (n div 10) @ [char_of (48 + n mod 10)])"

declare decimal.simps [simp del]

definition digitsValue :: "string \<Rightarrow> nat" where
  "digitsValue s = foldl (\<lambda>a c. 10 * a + (of_char c - 48)) 0 s"

definition parseDigits :: "string \<Rightarrow> jsnum" where
  "parseDigits s =
     (if s \<noteq> [] \<and> list_all (\<lambda>c. c \<in> set ''0123456789'') s then Num (of_nat (digitsValue s))
      else NaN)"

definition printInteger :: "jsnum \<Rightarrow> string" where
  "printInteger n =
     (case n of
        NaN \<Rightarrow> ''NaN''
      | Num r \<Rightarrow> if r < 0 then ''-'' @ decimal (nat \<lfloor>- r\<rfloor>) else decimal (nat \<lfloor>r\<rfloor>))"

definition exampleRuntime :: runtime where
  "exampleRuntime =
     \<lparr>parseInt = parseDigits, parseFloat = parseDigits, numToString = printInteger,
      NEXT_PUBLIC_API_URL = None\<rparr>"

text \<open>\<^verbatim>\<open>process.env.NEXT_PUBLIC_API_URL || 'http://localhost:9001'\<close>\<close>

definition apiBase :: "runtime \<Rightarrow> string" where
  "apiBase rt =
     (case NEXT_PUBLIC_API_URL rt of
        None \<Rightarrow> ''http://localhost:9001''
      | Some u \<Rightarrow> if u \<noteq> [] then u else ''http://localhost:9001'')"

text \<open>
  What \<^verbatim>\<open>fetch\<close> followed by \<^verbatim>\<open>response.json()\<close> can do: \<^verbatim>\<open>fetch\<close> rejects, or it resolves
  with a response that is OK or not and whose body is not JSON (then \<^verbatim>\<open>json()\<close> rejects),
  is the JSON value \<^verbatim>\<open>null\<close> (then reading a property of it throws), or is an object.
  The components only read named fields of the body. A body that is a number, a string, a
  boolean or an array has none of them, so it is an object with every field absent.
\<close>

datatype 'a json_body = BodyInvalid | BodyNull | BodyObject 'a

datatype 'a fetch_outcome = FetchRejected | FetchResolved bool "'a json_body"

datatype js_error = NetworkError | HttpError | SyntaxError | TypeError

section \<open>The result list: extracted text\<close>

text \<open>A value of a TypeScript type \<^verbatim>\<open>T | null | undefined\<close>.\<close>

datatype 'a nullable = Undefined | Null | Defined 'a

definition noTextPhrases :: "string list" where
  "noTextPhrases =
     [''unable to extract'',
      ''can't extract'',
      ''sorry'',
      ''couldn't'',
      ''no text'',
      ''not visible'',
      ''not detected'',
      ''no text found'',
      ''no_text_found'',
      ''i don't see any'',
      ''cannot see'']"

text \<open>The loop \<^verbatim>\<open>for (const phrase of noTextPhrases) if (textLower.includes(phrase)) return "none"\<close>:
  whether it returns.\<close>

fun anyPhraseIncluded :: "string \<Rightarrow> string list \<Rightarrow> bool" where
  "anyPhraseIncluded textLower [] = False"
| "anyPhraseIncluded textLower (phrase # phrases) =
     (if includes_str textLower phrase then True else anyPhraseIncluded textLower phrases)"

definition standardizeTextDisplay :: "string nullable \<Rightarrow> string" where
  "standardizeTextDisplay text =
     (case text of
        Undefined \<Rightarrow> ''extracting''
      | Null \<Rightarrow> ''none''
      | Defined t \<Rightarrow>
          if t = '''' then ''none''
          else if anyPhraseIncluded (toLowerCase t) noTextPhrases then ''none''
          else if length t < 5 then ''none''
          else t)"

section \<open>The result list: component state and rendering of a text status\<close>

record search_result =
  source :: string
  title :: string
  image_url :: string
  additional_images :: "string list option"
  price :: jsnum
  currency :: string
  link :: string
  description :: "string option"
  date :: "string option"
  result_location :: "string option"
  affiliate_link :: "string option"
  image_text :: "string nullable"
  additional_image_text :: "string nullable list option"

text \<open>The properties of \<^verbatim>\<open>SearchResults\<close>, and the two defaults of its parameter list.\<close>

record sr_props =
  query :: string
  page :: "jsnum option"
  yearMin :: "jsnum option"
  yearMax :: "jsnum option"
  location :: "string option"
  priceMin :: "jsnum option"
  priceMax :: "jsnum option"
  sortBy :: "string option"

definition pageOf :: "sr_props \<Rightarrow> jsnum" where
  "pageOf p = (case page p of None \<Rightarrow> Num 1 | Some n \<Rightarrow> n)"

definition sortByOf :: "sr_props \<Rightarrow> string" where
  "sortByOf p = (case sortBy p of None \<Rightarrow> ''relevance'' | Some s \<Rightarrow> s)"

text \<open>The six \<^verbatim>\<open>useState\<close> cells, with their initial values.\<close>

record sr_state =
  results :: "search_result list"
  total :: jsnum
  loading :: bool
  error :: "string option"
  enhancedQuery :: "string option"
  extractionTimeout :: bool

definition initialState :: sr_state where
  "initialState =
     \<lparr>results = [], total = Num 0, loading = True, error = None, enhancedQuery = None,
      extractionTimeout = False\<rparr>"

text \<open>The effect run once on mount: \<^verbatim>\<open>setTimeout(() => setExtractionTimeout(true), 10000)\<close>.\<close>

record timer =
  delay_ms :: nat
  callback :: "sr_state \<Rightarrow> sr_state"

definition extractionTimer :: timer where
  "extractionTimer = \<lparr>delay_ms = 10000, callback = (\<lambda>s. s\<lparr>extractionTimeout := True\<rparr>)\<rparr>"

datatype rendered_text = ExtractingIndicator | NoTextDetected | ExtractedText string

definition renderExtractedText :: "sr_state \<Rightarrow> string \<Rightarrow> rendered_text" where
  "renderExtractedText s textStatus =
     (if textStatus = ''extracting'' \<and> \<not> extractionTimeout s then ExtractingIndicator
      else if textStatus = ''none'' \<or> (textStatus = ''extracting'' \<and> extractionTimeout s)
      then NoTextDetected
      else ExtractedText textStatus)"

text \<open>The text panel of one result card: the front image, the back image when the result has
  additional images, and one line for each further extracted text.\<close>

datatype text_label = Front | Back | Additional nat

definition textPanel :: "sr_state \<Rightarrow> search_result \<Rightarrow> (text_label \<times> rendered_text) list" where
  "textPanel s result =
     [(Front, renderExtractedText s (standardizeTextDisplay (image_text result)))]
     @ (case additional_images result of
          None \<Rightarrow> []
        | Some images \<Rightarrow>
            if length images > 0
            then [(Back, renderExtractedText s (standardizeTextDisplay
                    (case additional_image_text result of
                       None \<Rightarrow> Undefined
                     | Some texts \<Rightarrow> (case texts of [] \<Rightarrow> Undefined | t # _ \<Rightarrow> t))))]
            else [])
     @ (case additional_image_text result of
          None \<Rightarrow> []
        | Some texts \<Rightarrow>
            if length texts > 1
            then map (\<lambda>(index, t). (Additional (index + 2),
                        renderExtractedText s (standardizeTextDisplay t)))
                   (enumerate 0 (tl texts))
            else [])"

section \<open>The result list: fetching\<close>

text \<open>The body of the search response, as far as the component reads it. Each field can be
  absent (\<^verbatim>\<open>undefined\<close>), \<^verbatim>\<open>null\<close> or present; a present field has the type of the state
  cell that receives it.\<close>

record search_response =
  resp_results :: "search_result list nullable"
  resp_total :: "jsnum nullable"
  enhanced_query :: "string nullable"

text \<open>The parameters appended to the \<^verbatim>\<open>URLSearchParams\<close> of the request, in order.\<close>

definition searchRequestParams :: "runtime \<Rightarrow> sr_props \<Rightarrow> (string \<times> string) list" where
  "searchRequestParams rt p =
     [(''query'', query p), (''page'', numToString rt (pageOf p))]
     @ (case yearMin p of None \<Rightarrow> [] | Some n \<Rightarrow> [(''year_min'', numToString rt n)])
     @ (case yearMax p of None \<Rightarrow> [] | Some n \<Rightarrow> [(''year_max'', numToString rt n)])
     @ (case location p of None \<Rightarrow> [] | Some l \<Rightarrow> if l \<noteq> [] then [(''location'', l)] else [])
     @ (case priceMin p of None \<Rightarrow> [] | Some n \<Rightarrow> [(''price_min'', numToString rt n)])
     @ (case priceMax p of None \<Rightarrow> [] | Some n \<Rightarrow> [(''price_max'', numToString rt n)])
     @ (if sortByOf p \<noteq> [] then [(''sort_by'', sortByOf p)] else [])"

definition searchApiUrl :: "runtime \<Rightarrow> sr_props \<Rightarrow> string" where
  "searchApiUrl rt p = apiBase rt @ ''/api/search?'' @ serializeParams (searchRequestParams rt p)"

text \<open>The \<^verbatim>\<open>try\<close> block up to the parsed body: \<^verbatim>\<open>fetch\<close>, the throw on a response that is
  not OK, and \<^verbatim>\<open>response.json()\<close>; \<open>Inl\<close> is what reaches the \<^verbatim>\<open>catch\<close> block.\<close>

definition tryFetch :: "'a fetch_outcome \<Rightarrow> js_error + 'a" where
  "tryFetch outcome =
     (case outcome of
        FetchRejected \<Rightarrow> Inl NetworkError
      | FetchResolved ok body \<Rightarrow>
          if \<not> ok then Inl HttpError
          else (case body of
                  BodyInvalid \<Rightarrow> Inl SyntaxError
                | BodyNull \<Rightarrow> Inl TypeError
                | BodyObject data \<Rightarrow> Inr data))"

text \<open>\<^verbatim>\<open>data.results || []\<close>, \<^verbatim>\<open>data.total || 0\<close> and \<^verbatim>\<open>data.enhanced_query || null\<close>.\<close>

definition resultsOrEmpty :: "search_result list nullable \<Rightarrow> search_result list" where
  "resultsOrEmpty r = (case r of Defined xs \<Rightarrow> xs | _ \<Rightarrow> [])"

definition totalOrZero :: "jsnum nullable \<Rightarrow> jsnum" where
  "totalOrZero t = (case t of Defined n \<Rightarrow> if numTruthy (Some n) then n else Num 0 | _ \<Rightarrow> Num 0)"

definition enhancedOrNull :: "string nullable \<Rightarrow> string option" where
  "enhancedOrNull e = (case e of Defined q \<Rightarrow> if q \<noteq> [] then Some q else None | _ \<Rightarrow> None)"

text \<open>
  \<^verbatim>\<open>fetchResults\<close>: the network is a function from the request URL to what the request
  does. The result is the new state and the list of requests issued.
\<close>

definition fetchResults ::
  "runtime \<Rightarrow> sr_props \<Rightarrow> (string \<Rightarrow> search_response fetch_outcome) \<Rightarrow> sr_state
     \<Rightarrow> sr_state \<times> string list" where
  "fetchResults rt p net s =
     (if query p = [] then (s, [])
      else
        let s1 = s\<lparr>loading := True, error := None\<rparr>;
            apiUrl = searchApiUrl rt p
        in (case tryFetch (net apiUrl) of
              Inr data \<Rightarrow>
                s1\<lparr>results := resultsOrEmpty (resp_results data),
                   total := totalOrZero (resp_total data),
                   enhancedQuery := enhancedOrNull (enhanced_query data),
                   loading := False\<rparr>
            | Inl err \<Rightarrow>
                s1\<lparr>error := Some ''Failed to fetch search results. Please try again later.'',
                   results := [],
                   total := Num 0,
                   loading := False\<rparr>,
            [apiUrl]))"

section \<open>The result list: banner and pagination\<close>

text \<open>
  Modelled from the spec: the Query Enhancer, which runs in the search service and is not
  among the sources. It "sends the raw user query to an external language-model service and
  receives a rewritten/expanded query string; on failure, falls back to the original query".
  The second argument is what the language-model call gave: a rewritten query, or nothing
  when the call failed.
\<close>

definition enhanceQuery :: "string \<Rightarrow> string option \<Rightarrow> string" where
  "enhanceQuery userQuery rewritten = (case rewritten of None \<Rightarrow> userQuery | Some q \<Rightarrow> q)"

definition enhancedBanner :: "sr_props \<Rightarrow> sr_state \<Rightarrow> string option" where
  "enhancedBanner p s =
     (case enhancedQuery s of
        None \<Rightarrow> None
      | Some e \<Rightarrow> if e \<noteq> [] \<and> e \<noteq> query p then Some e else None)"

text \<open>One optional numeric parameter of a pagination link:
  \<^verbatim>\<open>${yearMin ? `&year_min=${yearMin}` : ''}\<close>.\<close>

definition numParam :: "runtime \<Rightarrow> string \<Rightarrow> jsnum option \<Rightarrow> string" where
  "numParam rt name v =
     (case v of
        None \<Rightarrow> []
      | Some n \<Rightarrow> if numTruthy (Some n) then ''&'' @ name @ ''='' @ numToString rt n else [])"

definition pageHref :: "runtime \<Rightarrow> sr_props \<Rightarrow> jsnum \<Rightarrow> string" where
  "pageHref rt p n =
     ''/search?query='' @ encodeURIComponent (query p)
     @ ''&page='' @ numToString rt n
     @ numParam rt ''year_min'' (yearMin p)
     @ numParam rt ''year_max'' (yearMax p)
     @ (case location p of
          None \<Rightarrow> []
        | Some l \<Rightarrow> if l \<noteq> [] then ''&location='' @ encodeURIComponent l else [])
     @ numParam rt ''price_min'' (priceMin p)
     @ numParam rt ''price_max'' (priceMax p)
     @ (if sortByOf p \<noteq> [] then ''&sort_by='' @ sortByOf p else [])"

record pagination =
  previousLink :: "string option"
  currentPage :: jsnum
  nextLink :: "string option"

definition paginationView :: "runtime \<Rightarrow> sr_props \<Rightarrow> sr_state \<Rightarrow> pagination option" where
  "paginationView rt p s =
     (if numGreater (total s) 0
      then Some \<lparr>previousLink =
                   (if numGreater (pageOf p) 1
                    then Some (pageHref rt p (numPlus (pageOf p) (- 1))) else None),
                 currentPage = pageOf p,
                 nextLink =
                   (if length (results s) \<ge> 20
                    then Some (pageHref rt p (numPlus (pageOf p) 1)) else None)\<rparr>
      else None)"

text \<open>What the component returns: the loading line, the error box, or the page of results
  with its banner, the text panels of its cards and its pagination.\<close>

datatype sr_view =
    LoadingView
  | ErrorView string
  | ResultsPage "string option" "(text_label \<times> rendered_text) list list" "pagination option"

definition SearchResults :: "runtime \<Rightarrow> sr_props \<Rightarrow> sr_state \<Rightarrow> sr_view" where
  "SearchResults rt p s =
     (if loading s then LoadingView
      else if strTruthy (error s) then ErrorView (case error s of Some e \<Rightarrow> e | None \<Rightarrow> [])
      else ResultsPage (enhancedBanner p s) (map (textPanel s) (results s)) (paginationView rt p s))"

section \<open>The search form\<close>

record sf_state =
  form_query :: string
  suggestions :: "string list"
  showSuggestions :: bool
  isLoading :: bool

record suggest_response =
  resp_suggestions :: "string list nullable"

text \<open>
  \<^verbatim>\<open>generateMockSuggestions\<close> and \<^verbatim>\<open>fetchSuggestions\<close> read the \<^verbatim>\<open>query\<close> of the render
  they were created in; it is the parameter \<open>q\<close>.
\<close>

definition generateMockSuggestions :: "string \<Rightarrow> sf_state \<Rightarrow> sf_state" where
  "generateMockSuggestions q s =
     (if length q < 2 then s
      else s\<lparr>suggestions :=
               [q @ '' vintage postcards'',
                q @ '' antique postcards'',
                q @ '' 1950s postcards'',
                q @ '' black and white postcards'',
                q @ '' color postcards'']\<rparr>)"

definition suggestApiUrl :: "runtime \<Rightarrow> string \<Rightarrow> string" where
  "suggestApiUrl rt q = apiBase rt @ ''/api/suggest?query='' @ encodeURIComponent q"

text \<open>\<^verbatim>\<open>data.suggestions || []\<close>\<close>

definition suggestionsOrEmpty :: "string list nullable \<Rightarrow> string list" where
  "suggestionsOrEmpty r = (case r of Defined xs \<Rightarrow> xs | _ \<Rightarrow> [])"

text \<open>The \<^verbatim>\<open>catch\<close> block, which is also what the branch for a response that is not OK
  does: empty the list, then generate the local suggestions.\<close>

definition suggestFallback :: "string \<Rightarrow> sf_state \<Rightarrow> sf_state" where
  "suggestFallback q s = generateMockSuggestions q (s\<lparr>suggestions := []\<rparr>)"

definition fetchSuggestions ::
  "runtime \<Rightarrow> string \<Rightarrow> (string \<Rightarrow> suggest_response fetch_outcome) \<Rightarrow> sf_state
     \<Rightarrow> sf_state \<times> string list" where
  "fetchSuggestions rt q net s =
     (if length q < 2 then (s\<lparr>suggestions := []\<rparr>, [])
      else
        let s1 = s\<lparr>isLoading := True\<rparr>;
            apiUrl = suggestApiUrl rt q
        in ((case net apiUrl of
               FetchRejected \<Rightarrow> suggestFallback q s1
             | FetchResolved ok body \<Rightarrow>
                 if ok
                 then (case body of
                         BodyObject data \<Rightarrow>
                           s1\<lparr>suggestions := suggestionsOrEmpty (resp_suggestions data)\<rparr>
                       | _ \<Rightarrow> suggestFallback q s1)
                 else suggestFallback q s1)\<lparr>isLoading := False\<rparr>,
            [apiUrl]))"

text \<open>\<^verbatim>\<open>handleSubmit\<close>: the new state and the target of \<^verbatim>\<open>router.push\<close>, if it is called.\<close>

definition handleSubmit :: "sf_state \<Rightarrow> sf_state \<times> string option" where
  "handleSubmit s =
     (if trim (form_query s) \<noteq> []
      then (s\<lparr>showSuggestions := False\<rparr>,
            Some (''/search?query='' @ encodeURIComponent (trim (form_query s))))
      else (s, None))"

section \<open>The filter panel\<close>

record fp_state =
  yearMinValue :: string
  yearMaxValue :: string
  locationValue :: string
  priceMinValue :: string
  priceMaxValue :: string
  sortByValue :: string

text \<open>The initial values of the six cells, from the properties of the panel (those of the
  result list without the page): \<^verbatim>\<open>yearMin?.toString() || ''\<close> and so on.\<close>

definition numValue :: "runtime \<Rightarrow> jsnum option \<Rightarrow> string" where
  "numValue rt v = (case v of None \<Rightarrow> [] | Some n \<Rightarrow> numToString rt n)"

definition initialFilters :: "runtime \<Rightarrow> sr_props \<Rightarrow> fp_state" where
  "initialFilters rt p =
     \<lparr>yearMinValue = numValue rt (yearMin p),
      yearMaxValue = numValue rt (yearMax p),
      locationValue = (case location p of None \<Rightarrow> [] | Some l \<Rightarrow> l),
      priceMinValue = numValue rt (priceMin p),
      priceMaxValue = numValue rt (priceMax p),
      sortByValue = sortByOf p\<rparr>"

text \<open>The chips under the heading "Active Filters": one for each of the five filter values
  that is not empty, with its label.\<close>

definition filterChip :: "string \<Rightarrow> string \<Rightarrow> (string \<times> string) list" where
  "filterChip label v = (if v \<noteq> [] then [(label, v)] else [])"

definition activeFilters :: "fp_state \<Rightarrow> (string \<times> string) list" where
  "activeFilters fs =
     filterChip ''Year Min'' (yearMinValue fs)
     @ filterChip ''Year Max'' (yearMaxValue fs)
     @ filterChip ''Location'' (locationValue fs)
     @ filterChip ''Price Min'' (priceMinValue fs)
     @ filterChip ''Price Max'' (priceMaxValue fs)"

text \<open>\<^verbatim>\<open>applyFilters\<close> and \<^verbatim>\<open>resetFilters\<close> for the panel of the query \<open>q\<close>: the target of
  \<^verbatim>\<open>router.push\<close>, and for a reset the new state too.\<close>

definition filterParam :: "string \<Rightarrow> string \<Rightarrow> (string \<times> string) list" where
  "filterParam name v = (if v \<noteq> [] then [(name, v)] else [])"

definition applyFilters :: "string \<Rightarrow> fp_state \<Rightarrow> string" where
  "applyFilters q fs =
     ''/search?'' @ serializeParams
       ([(''query'', q)]
        @ filterParam ''year_min'' (yearMinValue fs)
        @ filterParam ''year_max'' (yearMaxValue fs)
        @ filterParam ''location'' (locationValue fs)
        @ filterParam ''price_min'' (priceMinValue fs)
        @ filterParam ''price_max'' (priceMaxValue fs)
        @ filterParam ''sort_by'' (sortByValue fs))"

definition resetFilters :: "string \<Rightarrow> fp_state \<Rightarrow> fp_state \<times> string" where
  "resetFilters q fs =
     (fs\<lparr>yearMinValue := [],
         yearMaxValue := [],
         locationValue := [],
         priceMinValue := [],
         priceMaxValue := [],
         sortByValue := ''relevance''\<rparr>,
      ''/search?query='' @ encodeURIComponent q)"

section \<open>The search page\<close>

text \<open>A parameter of the page URL is a string, or an array of strings when it is repeated.\<close>

datatype param_value = Single string | Repeated "string list"

type_synonym search_params = "string \<Rightarrow> param_value option"

text \<open>\<^verbatim>\<open>typeof params.k === 'string' ? f(params.k) : d\<close>\<close>

definition stringParam :: "search_params \<Rightarrow> string \<Rightarrow> string option" where
  "stringParam params k = (case params k of Some (Single v) \<Rightarrow> Some v | _ \<Rightarrow> None)"

definition pageProps :: "runtime \<Rightarrow> search_params \<Rightarrow> sr_props" where
  "pageProps rt params =
     \<lparr>query = (case stringParam params ''query'' of Some v \<Rightarrow> v | None \<Rightarrow> []),
      page = Some (case stringParam params ''page'' of Some v \<Rightarrow> parseInt rt v | None \<Rightarrow> Num 1),
      yearMin = map_option (parseInt rt) (stringParam params ''year_min''),
      yearMax = map_option (parseInt rt) (stringParam params ''year_max''),
      location = stringParam params ''location'',
      priceMin = map_option (parseFloat rt) (stringParam params ''price_min''),
      priceMax = map_option (parseFloat rt) (stringParam params ''price_max''),
      sortBy = Some (case stringParam params ''sort_by'' of Some v \<Rightarrow> v | None \<Rightarrow> ''relevance'')\<rparr>"

text \<open>The page always shows the search form. Below it come the filter panel and the result
  list, both built from the same properties, or the prompt screen.\<close>

datatype page_body = PromptScreen | ResultsLayout sr_props

record search_page =
  initialQuery :: string
  body :: page_body

definition SearchPage :: "runtime \<Rightarrow> search_params \<Rightarrow> search_page" where
  "SearchPage rt params =
     (let p = pageProps rt params
      in \<lparr>initialQuery = query p,
          body = (if query p \<noteq> [] then ResultsLayout p else PromptScreen)\<rparr>)"

text \<open>The search requests of a page load: those of the result list when it is mounted, in
  its initial state.\<close>

definition searchRequestsOnLoad ::
  "runtime \<Rightarrow> (string \<Rightarrow> search_response fetch_outcome) \<Rightarrow> search_params \<Rightarrow> string list" where
  "searchRequestsOnLoad rt net params =
     (case body (SearchPage rt params) of
        PromptScreen \<Rightarrow> []
      | ResultsLayout p \<Rightarrow> snd (fetchResults rt p net initialState))"

section \<open>Example values\<close>

text \<open>A search for \<open>paris\<close> on page 1 without filters, one result whose text is still being
  extracted, and a response with a full page of 20 such results out of 40.\<close>

definition exampleProps :: sr_props where
  "exampleProps =
     \<lparr>query = ''paris'', page = Some (Num 1), yearMin = None, yearMax = None, location = None,
      priceMin = None, priceMax = None, sortBy = Some ''relevance''\<rparr>"

definition exampleResult :: search_result where
  "exampleResult =
     \<lparr>source = ''eBay'', title = ''Paris, Tour Eiffel'', image_url = ''https://example.org/1.jpg'',
      additional_images = None, price = Num 12, currency = ''USD'',
      link = ''https://example.org/1'', description = None, date = None,
      result_location = None, affiliate_link = None, image_text = Undefined,
      additional_image_text = None\<rparr>"

definition exampleResponse :: search_response where
  "exampleResponse =
     \<lparr>resp_results = Defined (replicate 20 exampleResult), resp_total = Defined (Num 40),
      enhanced_query = Defined ''vintage paris postcards''\<rparr>"

section \<open>Properties\<close>

lemma startsWith_iff: "startsWith s p \<longleftrightarrow> (\<exists>b. s = p @ b)"
  by (induction s p rule: startsWith.induct) auto

lemma includes_iff: "includes_str s p \<longleftrightarrow> (\<exists>a b. s = a @ p @ b)"
proof (induction s)
  case Nil
  show ?case by (simp add: startsWith_iff)
next
  case (Cons c cs)
  show ?case
  proof
    assume "includes_str (c # cs) p"
    then consider "startsWith (c # cs) p" | "includes_str cs p" by auto
    then show "\<exists>a b. c # cs = a @ p @ b"
    proof cases
      case 1
      then obtain b where "c # cs = p @ b" by (auto simp: startsWith_iff)
      then have "c # cs = [] @ p @ b" by simp
      then show ?thesis by blast
    next
      case 2
      then obtain a b where "cs = a @ p @ b" using Cons.IH by blast
      then have "c # cs = (c # a) @ p @ b" by simp
      then show ?thesis by blast
    qed
  next
    assume "\<exists>a b. c # cs = a @ p @ b"
    then obtain a b where ab: "c # cs = a @ p @ b" by blast
    show "includes_str (c # cs) p"
    proof (cases a)
      case Nil
      with ab have "startsWith (c # cs) p" by (auto simp: startsWith_iff)
      then show ?thesis by simp
    next
      case (Cons x a')
      with ab have "cs = a' @ p @ b" by simp
      then have "includes_str cs p" using Cons.IH by blast
      then show ?thesis by simp
    qed
  qed
qed

lemma anyPhraseIncluded_iff:
  "anyPhraseIncluded t ps \<longleftrightarrow> (\<exists>p \<in> set ps. \<exists>a b. t = a @ p @ b)"
  by (induction ps) (auto simp: includes_iff)

subsection \<open>The classifier of extracted text\<close>

lemma std_extracting_iff:
  "standardizeTextDisplay text = ''extracting'' \<longleftrightarrow> text = Undefined \<or> text = Defined ''extracting''"
proof (cases "text")
  case Undefined
  then show ?thesis by (simp add: standardizeTextDisplay_def)
next
  case Null
  then show ?thesis by (simp add: standardizeTextDisplay_def)
next
  case (Defined t)
  have "standardizeTextDisplay (Defined ''extracting'') = ''extracting''"
    by (simp add: standardizeTextDisplay_def noTextPhrases_def toLowerCase_def toLowerChar_def char_of_eq_iff)
  with Defined show ?thesis
    by (auto simp: standardizeTextDisplay_def split: if_splits)
qed

text \<open>
  C1, as amended. \<open>standardizeTextDisplay\<close> returns \<open>extracting\<close> for \<^verbatim>\<open>undefined\<close>. It
  returns \<open>none\<close> for \<^verbatim>\<open>null\<close>, for the empty string, for a string whose lower-case form
  contains one of the eleven phrases, and for a string shorter than 5. Every other string is
  returned unchanged. So the result is \<open>extracting\<close> exactly when the input is
  \<^verbatim>\<open>undefined\<close> or is the string \<open>extracting\<close> itself.
\<close>

theorem standardizeTextDisplay_tristate:
  "standardizeTextDisplay Undefined = ''extracting''
   \<and> standardizeTextDisplay Null = ''none''
   \<and> (t = [] \<or> (\<exists>phrase \<in> set noTextPhrases. \<exists>a b. toLowerCase t = a @ phrase @ b) \<or> length t < 5
        \<longrightarrow> standardizeTextDisplay (Defined t) = ''none'')
   \<and> (\<not> (t = [] \<or> (\<exists>phrase \<in> set noTextPhrases. \<exists>a b. toLowerCase t = a @ phrase @ b) \<or> length t < 5)
        \<longrightarrow> standardizeTextDisplay (Defined t) = t)
   \<and> (standardizeTextDisplay text = ''extracting''
        \<longleftrightarrow> text = Undefined \<or> text = Defined ''extracting'')
   \<and> length noTextPhrases = 11"
proof -
  have "length noTextPhrases = 11" by (simp add: noTextPhrases_def)
  then show ?thesis
    by (simp add: std_extracting_iff) (simp add: standardizeTextDisplay_def anyPhraseIncluded_iff)
qed

text \<open>C1 at three strings: one with a phrase in it, a short one, and one that is returned.\<close>

theorem standardizeTextDisplay_tristate_witness:
  "(\<exists>phrase \<in> set noTextPhrases. \<exists>a b. toLowerCase ''Sorry, I see no Text'' = a @ phrase @ b)
   \<and> standardizeTextDisplay (Defined ''Sorry, I see no Text'') = ''none''
   \<and> standardizeTextDisplay (Defined ''1907'') = ''none''
   \<and> \<not> (''Greetings from Paris'' = [] \<or> (\<exists>phrase \<in> set noTextPhrases. \<exists>a b. toLowerCase ''Greetings from Paris'' = a @ phrase @ b) \<or> length ''Greetings from Paris'' < 5)
   \<and> standardizeTextDisplay (Defined ''Greetings from Paris'') = ''Greetings from Paris''"
proof -
  have h1: "\<exists>phrase \<in> set noTextPhrases. \<exists>a b. toLowerCase ''Sorry, I see no Text'' = a @ phrase @ b"
    unfolding anyPhraseIncluded_iff [symmetric]
    by (simp add: noTextPhrases_def toLowerCase_def toLowerChar_def char_of_eq_iff)
  have h2: "length ''1907'' < 5" by simp
  have h3: "\<not> (''Greetings from Paris'' = [] \<or> (\<exists>phrase \<in> set noTextPhrases. \<exists>a b. toLowerCase ''Greetings from Paris'' = a @ phrase @ b) \<or> length ''Greetings from Paris'' < 5)"
    unfolding anyPhraseIncluded_iff [symmetric]
    by (simp add: noTextPhrases_def toLowerCase_def toLowerChar_def char_of_eq_iff)
  note none = standardizeTextDisplay_tristate [THEN conjunct2, THEN conjunct2, THEN conjunct1, rule_format]
  note same = standardizeTextDisplay_tristate [THEN conjunct2, THEN conjunct2, THEN conjunct2, THEN conjunct1, rule_format]
  have c1: "standardizeTextDisplay (Defined ''Sorry, I see no Text'') = ''none''"
    by (rule none) (rule disjI2, rule disjI1, rule h1)
  have c2: "standardizeTextDisplay (Defined ''1907'') = ''none''"
    by (rule none) (rule disjI2, rule disjI2, rule h2)
  have c3: "standardizeTextDisplay (Defined ''Greetings from Paris'') = ''Greetings from Paris''"
    by (rule same) (rule h3)
  from h1 c1 c2 h3 c3 show ?thesis by (intro conjI)
qed

text \<open>
  C1 as stated fails: the string \<open>extracting\<close> is defined, holds none of the phrases and has
  10 characters, so it is returned as it is, and the result is \<open>extracting\<close> for an input
  that is not \<^verbatim>\<open>undefined\<close>.
\<close>

theorem standardizeTextDisplay_extracting_counterexample:
  "\<not> (standardizeTextDisplay (Defined ''extracting'') = ''extracting''
        \<longleftrightarrow> Defined ''extracting'' = (Undefined :: string nullable))"
  by (simp add: standardizeTextDisplay_def noTextPhrases_def toLowerCase_def toLowerChar_def char_of_eq_iff)

subsection \<open>Rendering a text status\<close>

text \<open>
  C2. The flag \<open>extractionTimeout\<close> starts as false and is set by the callback of the timer
  that the component starts on mount with a delay of 10000 ms; fetching results does not
  change it. A text status \<open>extracting\<close> renders the extracting indicator while the flag is
  false and "No text detected" once it is true. The status \<open>none\<close> always renders
  "No text detected", and any other status renders the text itself. The first line of the text
  panel of a result is the rendering of the status of its front image.
\<close>

theorem renderExtractedText_bounded_wait:
  "extractionTimeout initialState = False
   \<and> delay_ms extractionTimer = 10000
   \<and> extractionTimeout (callback extractionTimer s) = True
   \<and> extractionTimeout (fst (fetchResults rt p net s)) = extractionTimeout s
   \<and> (\<not> extractionTimeout s \<longrightarrow> renderExtractedText s ''extracting'' = ExtractingIndicator)
   \<and> (extractionTimeout s \<longrightarrow> renderExtractedText s ''extracting'' = NoTextDetected)
   \<and> renderExtractedText s ''none'' = NoTextDetected
   \<and> (textStatus \<noteq> ''extracting'' \<and> textStatus \<noteq> ''none''
        \<longrightarrow> renderExtractedText s textStatus = ExtractedText textStatus)
   \<and> hd (textPanel s result) = (Front, renderExtractedText s (standardizeTextDisplay (image_text result)))"
  by (simp add: initialState_def extractionTimer_def renderExtractedText_def fetchResults_def
      textPanel_def Let_def split: sum.splits)

text \<open>C2 in the initial state, after the timer has fired, and for an extracted text.\<close>

theorem renderExtractedText_bounded_wait_witness:
  "\<not> extractionTimeout initialState
   \<and> renderExtractedText initialState ''extracting'' = ExtractingIndicator
   \<and> extractionTimeout (callback extractionTimer initialState)
   \<and> renderExtractedText (callback extractionTimer initialState) ''extracting'' = NoTextDetected
   \<and> ''Greetings from Paris'' \<noteq> ''extracting'' \<and> ''Greetings from Paris'' \<noteq> ''none''
   \<and> renderExtractedText initialState ''Greetings from Paris'' = ExtractedText ''Greetings from Paris''"
proof -
  note T = renderExtractedText_bounded_wait
  have a: "\<not> extractionTimeout initialState" by (simp add: initialState_def)
  have b: "extractionTimeout (callback extractionTimer initialState)"
    by (simp add: extractionTimer_def)
  have c: "''Greetings from Paris'' \<noteq> ''extracting'' \<and> ''Greetings from Paris'' \<noteq> ''none''"
    by simp
  have 1: "renderExtractedText initialState ''extracting'' = ExtractingIndicator"
    using T [where s = initialState] a by simp
  have 2: "renderExtractedText (callback extractionTimer initialState) ''extracting'' = NoTextDetected"
    using T [where s = "callback extractionTimer initialState"] b by simp
  have 3: "renderExtractedText initialState ''Greetings from Paris'' = ExtractedText ''Greetings from Paris''"
    using T [where s = initialState and textStatus = "''Greetings from Paris''"] c
    by simp
  from a 1 b 2 c 3 show ?thesis by simp
qed

subsection \<open>Fetching results\<close>

lemma fetchResults_failure:
  assumes "query p \<noteq> []" and "tryFetch (net (searchApiUrl rt p)) = Inl e"
  shows "fst (fetchResults rt p net s) =
           s\<lparr>loading := False,
             error := Some ''Failed to fetch search results. Please try again later.'',
             results := [], total := Num 0\<rparr>"
  using assms by (simp add: fetchResults_def Let_def)

lemma fetchResults_success:
  assumes "query p \<noteq> []" and "tryFetch (net (searchApiUrl rt p)) = Inr data"
  shows "fst (fetchResults rt p net s) =
           s\<lparr>loading := False, error := None,
             results := resultsOrEmpty (resp_results data),
             total := totalOrZero (resp_total data),
             enhancedQuery := enhancedOrNull (enhanced_query data)\<rparr>"
  using assms by (simp add: fetchResults_def Let_def)

text \<open>
  C3. A search request is issued for a query that is not empty. If \<^verbatim>\<open>fetch\<close> throws or the
  response is not OK, the state after \<open>fetchResults\<close> has the error message set, an empty
  result list and a total of zero, and the component shows the error box. The same happens
  when the response is OK and its body cannot be read as an object. When the request
  succeeds, that is, the response is OK and its body is read, the error is \<^verbatim>\<open>null\<close>,
  whatever it was before, and the component shows the page of results.
\<close>

theorem fetchResults_error_state:
  fixes rt p net s
  defines "outcome \<equiv> net (searchApiUrl rt p)"
    and "s' \<equiv> fst (fetchResults rt p net s)"
    and "message \<equiv> ''Failed to fetch search results. Please try again later.''"
  assumes "query p \<noteq> []"
  shows "(outcome = FetchRejected \<or> (\<exists>body. outcome = FetchResolved False body)
            \<longrightarrow> error s' = Some message \<and> results s' = [] \<and> total s' = Num 0
                \<and> SearchResults rt p s' = ErrorView message)
       \<and> (outcome = FetchResolved True BodyInvalid \<or> outcome = FetchResolved True BodyNull
            \<longrightarrow> error s' = Some message \<and> results s' = [] \<and> total s' = Num 0
                \<and> SearchResults rt p s' = ErrorView message)
       \<and> ((\<exists>data. outcome = FetchResolved True (BodyObject data))
            \<longrightarrow> error s' = None
                \<and> (\<exists>banner cards pages. SearchResults rt p s' = ResultsPage banner cards pages))"
proof -
  note nonempty = \<open>query p \<noteq> []\<close>
  have failed: "error s' = Some message \<and> results s' = [] \<and> total s' = Num 0
                \<and> SearchResults rt p s' = ErrorView message"
    if "tryFetch outcome = Inl e" for e
  proof -
    from that have "tryFetch (net (searchApiUrl rt p)) = Inl e" by (simp add: outcome_def)
    from fetchResults_failure [where net = net and rt = rt and p = p and s = s, OF nonempty this]
    have "s' = s\<lparr>loading := False, error := Some message, results := [], total := Num 0\<rparr>"
      by (simp add: s'_def message_def)
    then show ?thesis by (simp add: SearchResults_def message_def)
  qed
  have A: "outcome = FetchRejected \<or> (\<exists>body. outcome = FetchResolved False body)
            \<longrightarrow> error s' = Some message \<and> results s' = [] \<and> total s' = Num 0
                \<and> SearchResults rt p s' = ErrorView message"
  proof
    assume "outcome = FetchRejected \<or> (\<exists>body. outcome = FetchResolved False body)"
    then have "tryFetch outcome = Inl NetworkError \<or> tryFetch outcome = Inl HttpError"
      by (auto simp: tryFetch_def)
    then show "error s' = Some message \<and> results s' = [] \<and> total s' = Num 0
               \<and> SearchResults rt p s' = ErrorView message"
      using failed by blast
  qed
  have B: "outcome = FetchResolved True BodyInvalid \<or> outcome = FetchResolved True BodyNull
            \<longrightarrow> error s' = Some message \<and> results s' = [] \<and> total s' = Num 0
                \<and> SearchResults rt p s' = ErrorView message"
  proof
    assume "outcome = FetchResolved True BodyInvalid \<or> outcome = FetchResolved True BodyNull"
    then have "tryFetch outcome = Inl SyntaxError \<or> tryFetch outcome = Inl TypeError"
      by (auto simp: tryFetch_def)
    then show "error s' = Some message \<and> results s' = [] \<and> total s' = Num 0
               \<and> SearchResults rt p s' = ErrorView message"
      using failed by blast
  qed
  have C: "(\<exists>data. outcome = FetchResolved True (BodyObject data))
            \<longrightarrow> error s' = None
                \<and> (\<exists>banner cards pages. SearchResults rt p s' = ResultsPage banner cards pages)"
  proof
    assume "\<exists>data. outcome = FetchResolved True (BodyObject data)"
    then obtain data where "tryFetch (net (searchApiUrl rt p)) = Inr data"
      by (auto simp: tryFetch_def outcome_def)
    from fetchResults_success [where net = net and rt = rt and p = p and s = s, OF nonempty this]
    show "error s' = None
          \<and> (\<exists>banner cards pages. SearchResults rt p s' = ResultsPage banner cards pages)"
      by (simp add: s'_def SearchResults_def)
  qed
  from A B C show ?thesis by (intro conjI)
qed

text \<open>C3 for the query \<open>paris\<close>: a request that is rejected, one answered with a response that is
  not OK, and one that succeeds after an earlier error.\<close>

theorem fetchResults_error_state_witness:
  "query exampleProps \<noteq> []
   \<and> SearchResults exampleRuntime exampleProps
         (fst (fetchResults exampleRuntime exampleProps (\<lambda>url. FetchRejected) initialState))
       = ErrorView ''Failed to fetch search results. Please try again later.''
   \<and> total (fst (fetchResults exampleRuntime exampleProps
                   (\<lambda>url. FetchResolved False BodyInvalid) initialState)) = Num 0
   \<and> error (fst (fetchResults exampleRuntime exampleProps
                   (\<lambda>url. FetchResolved True (BodyObject exampleResponse))
                   (initialState\<lparr>error := Some ''Failed''\<rparr>))) = None"
proof -
  have q: "query exampleProps \<noteq> []" by (simp add: exampleProps_def)
  note T = fetchResults_error_state [where p = exampleProps and rt = exampleRuntime, OF q]
  have 1: "SearchResults exampleRuntime exampleProps
             (fst (fetchResults exampleRuntime exampleProps (\<lambda>url. FetchRejected) initialState))
           = ErrorView ''Failed to fetch search results. Please try again later.''"
    using T [where net = "\<lambda>url. FetchRejected" and s = initialState] by simp
  have 2: "total (fst (fetchResults exampleRuntime exampleProps
                   (\<lambda>url. FetchResolved False BodyInvalid) initialState)) = Num 0"
    using T [where net = "\<lambda>url. FetchResolved False BodyInvalid" and s = initialState] by simp
  have 3: "error (fst (fetchResults exampleRuntime exampleProps
                   (\<lambda>url. FetchResolved True (BodyObject exampleResponse))
                   (initialState\<lparr>error := Some ''Failed''\<rparr>))) = None"
    using T [where net = "\<lambda>url. FetchResolved True (BodyObject exampleResponse)"
               and s = "initialState\<lparr>error := Some ''Failed''\<rparr>"] by simp
  from q 1 2 3 show ?thesis by (intro conjI)
qed

text \<open>
  C4. When the response is OK and its body is read, the new state takes three values from
  the body and nothing else: the results, or the empty list when the field is absent or
  \<^verbatim>\<open>null\<close>; the total, or zero when the field is absent, \<^verbatim>\<open>null\<close>, 0 or \<open>NaN\<close>; and the
  enhanced query, or \<^verbatim>\<open>null\<close> when the field is absent, \<^verbatim>\<open>null\<close> or the empty string. Apart
  from these three cells only the loading flag and the error change.
\<close>

theorem fetchResults_takes_three_values:
  fixes rt p net s data
  defines "s' \<equiv> fst (fetchResults rt p net s)"
  assumes "query p \<noteq> []"
    and "net (searchApiUrl rt p) = FetchResolved True (BodyObject data)"
  shows "(resp_results data = Undefined \<or> resp_results data = Null \<longrightarrow> results s' = [])
       \<and> (\<forall>xs. resp_results data = Defined xs \<longrightarrow> results s' = xs)
       \<and> (resp_total data = Undefined \<or> resp_total data = Null
            \<or> resp_total data = Defined (Num 0) \<or> resp_total data = Defined NaN
            \<longrightarrow> total s' = Num 0)
       \<and> (\<forall>r. resp_total data = Defined (Num r) \<and> r \<noteq> 0 \<longrightarrow> total s' = Num r)
       \<and> (enhanced_query data = Undefined \<or> enhanced_query data = Null
            \<or> enhanced_query data = Defined []
            \<longrightarrow> enhancedQuery s' = None)
       \<and> (\<forall>q. enhanced_query data = Defined q \<and> q \<noteq> [] \<longrightarrow> enhancedQuery s' = Some q)
       \<and> s' = s\<lparr>results := results s', total := total s', enhancedQuery := enhancedQuery s',
                 loading := False, error := None\<rparr>"
proof -
  from assms(3) have "tryFetch (net (searchApiUrl rt p)) = Inr data"
    by (simp add: tryFetch_def)
  from fetchResults_success [where net = net and rt = rt and p = p and s = s, OF assms(2) this]
  have eq: "s' = s\<lparr>loading := False, error := None,
                    results := resultsOrEmpty (resp_results data),
                    total := totalOrZero (resp_total data),
                    enhancedQuery := enhancedOrNull (enhanced_query data)\<rparr>"
    by (simp add: s'_def)
  have r: "results s' = resultsOrEmpty (resp_results data)"
    and t: "total s' = totalOrZero (resp_total data)"
    and e: "enhancedQuery s' = enhancedOrNull (enhanced_query data)"
    by (simp_all add: eq)
  have 1: "resp_results data = Undefined \<or> resp_results data = Null \<longrightarrow> results s' = []"
    by (auto simp: r resultsOrEmpty_def)
  have 2: "\<forall>xs. resp_results data = Defined xs \<longrightarrow> results s' = xs"
    by (simp add: r resultsOrEmpty_def)
  have 3: "resp_total data = Undefined \<or> resp_total data = Null
            \<or> resp_total data = Defined (Num 0) \<or> resp_total data = Defined NaN
            \<longrightarrow> total s' = Num 0"
    by (auto simp: t totalOrZero_def)
  have 4: "\<forall>r. resp_total data = Defined (Num r) \<and> r \<noteq> 0 \<longrightarrow> total s' = Num r"
    by (simp add: t totalOrZero_def)
  have 5: "enhanced_query data = Undefined \<or> enhanced_query data = Null
            \<or> enhanced_query data = Defined []
            \<longrightarrow> enhancedQuery s' = None"
    by (auto simp: e enhancedOrNull_def)
  have 6: "\<forall>q. enhanced_query data = Defined q \<and> q \<noteq> [] \<longrightarrow> enhancedQuery s' = Some q"
    by (simp add: e enhancedOrNull_def)
  have 7: "s' = s\<lparr>results := results s', total := total s', enhancedQuery := enhancedQuery s',
                 loading := False, error := None\<rparr>"
    by (simp add: eq)
  from 1 2 3 4 5 6 7 show ?thesis by (intro conjI)
qed

text \<open>C4 for a body without results, with a total of 0 and with an enhanced query, and for
  a body with a total of 40.\<close>

theorem fetchResults_takes_three_values_witness:
  "query exampleProps \<noteq> []
   \<and> results (fst (fetchResults exampleRuntime exampleProps
           (\<lambda>url. FetchResolved True (BodyObject
              \<lparr>resp_results = Undefined, resp_total = Defined (Num 0),
               enhanced_query = Defined ''vintage paris postcards''\<rparr>))
           initialState)) = []
   \<and> total (fst (fetchResults exampleRuntime exampleProps
           (\<lambda>url. FetchResolved True (BodyObject
              \<lparr>resp_results = Undefined, resp_total = Defined (Num 0),
               enhanced_query = Defined ''vintage paris postcards''\<rparr>))
           initialState)) = Num 0
   \<and> enhancedQuery (fst (fetchResults exampleRuntime exampleProps
           (\<lambda>url. FetchResolved True (BodyObject
              \<lparr>resp_results = Undefined, resp_total = Defined (Num 0),
               enhanced_query = Defined ''vintage paris postcards''\<rparr>))
           initialState)) = Some ''vintage paris postcards''
   \<and> total (fst (fetchResults exampleRuntime exampleProps
                   (\<lambda>url. FetchResolved True (BodyObject exampleResponse)) initialState))
     = Num 40"
proof -
  have q: "query exampleProps \<noteq> []" by (simp add: exampleProps_def)
  let ?d = "\<lparr>resp_results = Undefined, resp_total = Defined (Num 0),
              enhanced_query = Defined ''vintage paris postcards''\<rparr>"
  let ?s' = "fst (fetchResults exampleRuntime exampleProps
                  (\<lambda>url. FetchResolved True (BodyObject ?d)) initialState)"
  note T = fetchResults_takes_three_values
            [where net = "\<lambda>url. FetchResolved True (BodyObject ?d)" and data = ?d
               and p = exampleProps and rt = exampleRuntime and s = initialState, OF q]
  have r: "results ?s' = []" using T by simp
  have t: "total ?s' = Num 0" using T by simp
  have e: "enhancedQuery ?s' = Some ''vintage paris postcards''" using T by simp
  have 2: "total (fst (fetchResults exampleRuntime exampleProps
                   (\<lambda>url. FetchResolved True (BodyObject exampleResponse)) initialState))
           = Num 40"
    using fetchResults_takes_three_values
            [where net = "\<lambda>url. FetchResolved True (BodyObject exampleResponse)"
               and data = exampleResponse
               and p = exampleProps and rt = exampleRuntime and s = initialState, OF q]
    by (simp add: exampleResponse_def)
  from q r t e 2 show ?thesis by (intro conjI)
qed

subsection \<open>Suggestions\<close>

lemma suggestFallback_suggestions:
  assumes "2 \<le> length q"
  shows "suggestions (suggestFallback q s) =
           [q @ '' vintage postcards'', q @ '' antique postcards'', q @ '' 1950s postcards'',
            q @ '' black and white postcards'', q @ '' color postcards'']"
  using assms by (simp add: suggestFallback_def generateMockSuggestions_def)

text \<open>
  C5. For a query of length at least 2, when the suggestion request is rejected or its
  response is not OK, the suggestions become the five local ones: the query followed by
  \<open>vintage postcards\<close>, \<open>antique postcards\<close>, \<open>1950s postcards\<close>, \<open>black and white postcards\<close>
  and \<open>color postcards\<close>, so each starts with the query. One request was issued. For a query
  shorter than 2 the suggestions become empty, nothing else changes and no request is issued.
\<close>

theorem fetchSuggestions_fallback:
  fixes rt q net s
  defines "outcome \<equiv> net (suggestApiUrl rt q)"
    and "s' \<equiv> fst (fetchSuggestions rt q net s)"
  shows "(2 \<le> length q \<and> (outcome = FetchRejected \<or> (\<exists>body. outcome = FetchResolved False body))
            \<longrightarrow> suggestions s' =
                  [q @ '' vintage postcards'', q @ '' antique postcards'', q @ '' 1950s postcards'',
                   q @ '' black and white postcards'', q @ '' color postcards'']
                \<and> length (suggestions s') = 5
                \<and> (\<forall>x \<in> set (suggestions s'). \<exists>rest. x = q @ rest)
                \<and> snd (fetchSuggestions rt q net s) = [suggestApiUrl rt q])
       \<and> (length q < 2 \<longrightarrow> fetchSuggestions rt q net s = (s\<lparr>suggestions := []\<rparr>, []))"
proof -
  have A: "suggestions s' =
                  [q @ '' vintage postcards'', q @ '' antique postcards'', q @ '' 1950s postcards'',
                   q @ '' black and white postcards'', q @ '' color postcards'']
                \<and> length (suggestions s') = 5
                \<and> (\<forall>x \<in> set (suggestions s'). \<exists>rest. x = q @ rest)
                \<and> snd (fetchSuggestions rt q net s) = [suggestApiUrl rt q]"
    if len: "2 \<le> length q"
      and out: "outcome = FetchRejected \<or> (\<exists>body. outcome = FetchResolved False body)"
  proof -
    from len have nlt: "\<not> length q < 2" by simp
    from out have "s' = (suggestFallback q (s\<lparr>isLoading := True\<rparr>))\<lparr>isLoading := False\<rparr>"
      using nlt by (auto simp: s'_def outcome_def fetchSuggestions_def Let_def)
    then have 1: "suggestions s' =
                  [q @ '' vintage postcards'', q @ '' antique postcards'', q @ '' 1950s postcards'',
                   q @ '' black and white postcards'', q @ '' color postcards'']"
      by (simp add: suggestFallback_suggestions [OF len])
    have 2: "snd (fetchSuggestions rt q net s) = [suggestApiUrl rt q]"
      using nlt by (simp add: fetchSuggestions_def Let_def)
    from 1 2 show ?thesis by simp
  qed
  have B: "fetchSuggestions rt q net s = (s\<lparr>suggestions := []\<rparr>, [])" if "length q < 2"
    using that by (simp add: fetchSuggestions_def)
  from A B show ?thesis by blast
qed

text \<open>C5 for the queries \<open>paris\<close> and \<open>p\<close>.\<close>

theorem fetchSuggestions_fallback_witness:
  "2 \<le> length ''paris''
   \<and> suggestions (fst (fetchSuggestions exampleRuntime ''paris'' (\<lambda>url. FetchRejected)
                         \<lparr>form_query = ''paris'', suggestions = [], showSuggestions = True,
                          isLoading = False\<rparr>))
     = [''paris vintage postcards'', ''paris antique postcards'', ''paris 1950s postcards'',
        ''paris black and white postcards'', ''paris color postcards'']
   \<and> length ''p'' < 2
   \<and> fetchSuggestions exampleRuntime ''p'' (\<lambda>url. FetchResolved False BodyInvalid)
        \<lparr>form_query = ''p'', suggestions = [''paris''], showSuggestions = True, isLoading = False\<rparr>
     = (\<lparr>form_query = ''p'', suggestions = [], showSuggestions = True, isLoading = False\<rparr>, [])"
proof -
  have a: "2 \<le> length ''paris''" by simp
  have b: "length ''p'' < 2" by simp
  have 1: "suggestions (fst (fetchSuggestions exampleRuntime ''paris'' (\<lambda>url. FetchRejected)
                         \<lparr>form_query = ''paris'', suggestions = [], showSuggestions = True,
                          isLoading = False\<rparr>))
     = [''paris vintage postcards'', ''paris antique postcards'', ''paris 1950s postcards'',
        ''paris black and white postcards'', ''paris color postcards'']"
    using fetchSuggestions_fallback [where q = "''paris''" and net = "\<lambda>url. FetchRejected"
              and rt = exampleRuntime] a
    by simp
  have 2: "fetchSuggestions exampleRuntime ''p'' (\<lambda>url. FetchResolved False BodyInvalid)
        \<lparr>form_query = ''p'', suggestions = [''paris''], showSuggestions = True, isLoading = False\<rparr>
     = (\<lparr>form_query = ''p'', suggestions = [], showSuggestions = True, isLoading = False\<rparr>, [])"
    using fetchSuggestions_fallback [where q = "''p''"
              and net = "\<lambda>url. FetchResolved False BodyInvalid" and rt = exampleRuntime] b
    by simp
  from a 1 b 2 show ?thesis by (intro conjI)
qed

subsection \<open>The banner of the enhanced query\<close>

text \<open>
  C6. When the enhancement fails, the query used is the user's query. The banner is shown
  exactly when the enhanced query in the state is a non-empty string other than the query;
  after a successful request that is exactly when the enhanced query of the response is
  present, as a non-empty string, and differs from the query. So there is no banner when the
  response carries the query that the enhancer gives on failure.
\<close>

theorem enhancedBanner_shown_iff:
  fixes rt p net s data userQuery
  defines "s' \<equiv> fst (fetchResults rt p net s)"
  shows "enhanceQuery userQuery None = userQuery
       \<and> (enhancedBanner p s \<noteq> None
            \<longleftrightarrow> (\<exists>e. enhancedQuery s = Some e \<and> e \<noteq> [] \<and> e \<noteq> query p))
       \<and> (\<forall>e. enhancedBanner p s = Some e \<longrightarrow> enhancedQuery s = Some e)
       \<and> (query p \<noteq> [] \<and> net (searchApiUrl rt p) = FetchResolved True (BodyObject data)
            \<longrightarrow> (enhancedBanner p s' \<noteq> None
                   \<longleftrightarrow> (\<exists>e. enhanced_query data = Defined e \<and> e \<noteq> [] \<and> e \<noteq> query p))
                \<and> (\<exists>cards pages.
                      SearchResults rt p s' = ResultsPage (enhancedBanner p s') cards pages)
                \<and> (enhanced_query data = Defined (enhanceQuery (query p) None)
                     \<longrightarrow> enhancedBanner p s' = None))"
proof -
  have 1: "enhanceQuery userQuery None = userQuery" by (simp add: enhanceQuery_def)
  have 2: "enhancedBanner p s \<noteq> None
            \<longleftrightarrow> (\<exists>e. enhancedQuery s = Some e \<and> e \<noteq> [] \<and> e \<noteq> query p)"
    by (simp add: enhancedBanner_def split: option.splits)
  have 3: "\<forall>e. enhancedBanner p s = Some e \<longrightarrow> enhancedQuery s = Some e"
    by (simp add: enhancedBanner_def split: option.splits)
  have 4: "(enhancedBanner p s' \<noteq> None
                   \<longleftrightarrow> (\<exists>e. enhanced_query data = Defined e \<and> e \<noteq> [] \<and> e \<noteq> query p))
                \<and> (\<exists>cards pages.
                      SearchResults rt p s' = ResultsPage (enhancedBanner p s') cards pages)
                \<and> (enhanced_query data = Defined (enhanceQuery (query p) None)
                     \<longrightarrow> enhancedBanner p s' = None)"
    if q: "query p \<noteq> []"
      and out: "net (searchApiUrl rt p) = FetchResolved True (BodyObject data)"
  proof -
    from out have "tryFetch (net (searchApiUrl rt p)) = Inr data" by (simp add: tryFetch_def)
    from fetchResults_success [where net = net and rt = rt and p = p and s = s, OF q this]
    have eq: "s' = s\<lparr>loading := False, error := None,
                      results := resultsOrEmpty (resp_results data),
                      total := totalOrZero (resp_total data),
                      enhancedQuery := enhancedOrNull (enhanced_query data)\<rparr>"
      by (simp add: s'_def)
    have a: "enhancedBanner p s' \<noteq> None
              \<longleftrightarrow> (\<exists>e. enhanced_query data = Defined e \<and> e \<noteq> [] \<and> e \<noteq> query p)"
      by (cases "enhanced_query data") (auto simp: eq enhancedBanner_def enhancedOrNull_def)
    have b: "\<exists>cards pages. SearchResults rt p s' = ResultsPage (enhancedBanner p s') cards pages"
      by (simp add: eq SearchResults_def)
    have c: "enhanced_query data = Defined (enhanceQuery (query p) None)
               \<longrightarrow> enhancedBanner p s' = None"
      by (simp add: eq enhancedBanner_def enhancedOrNull_def enhanceQuery_def)
    from a b c show ?thesis by (intro conjI)
  qed
  from 1 2 3 4 show ?thesis by blast
qed

text \<open>C6 for the query \<open>paris\<close>: a response with the enhanced query
  \<open>vintage paris postcards\<close>, and one with the query itself.\<close>

theorem enhancedBanner_shown_iff_witness:
  "query exampleProps \<noteq> []
   \<and> enhancedBanner exampleProps
        (fst (fetchResults exampleRuntime exampleProps
                (\<lambda>url. FetchResolved True (BodyObject exampleResponse)) initialState)) \<noteq> None
   \<and> enhancedBanner exampleProps
        (fst (fetchResults exampleRuntime exampleProps
                (\<lambda>url. FetchResolved True (BodyObject
                   (exampleResponse\<lparr>enhanced_query := Defined (enhanceQuery ''paris'' None)\<rparr>)))
                initialState)) = None"
proof -
  have q: "query exampleProps \<noteq> []" by (simp add: exampleProps_def)
  note A = enhancedBanner_shown_iff
             [where p = exampleProps and rt = exampleRuntime and s = initialState
                and net = "\<lambda>url. FetchResolved True (BodyObject exampleResponse)"
                and data = exampleResponse,
              THEN conjunct2, THEN conjunct2, THEN conjunct2, THEN mp, OF conjI [OF q refl]]
  have "\<exists>e. enhanced_query exampleResponse = Defined e \<and> e \<noteq> [] \<and> e \<noteq> query exampleProps"
    by (simp add: exampleResponse_def exampleProps_def)
  from A [THEN conjunct1, THEN iffD2, OF this]
  have 1: "enhancedBanner exampleProps
        (fst (fetchResults exampleRuntime exampleProps
                (\<lambda>url. FetchResolved True (BodyObject exampleResponse)) initialState)) \<noteq> None" .
  let ?d = "exampleResponse\<lparr>enhanced_query := Defined (enhanceQuery ''paris'' None)\<rparr>"
  note B = enhancedBanner_shown_iff
             [where p = exampleProps and rt = exampleRuntime and s = initialState
                and net = "\<lambda>url. FetchResolved True (BodyObject ?d)" and data = ?d,
              THEN conjunct2, THEN conjunct2, THEN conjunct2, THEN mp, OF conjI [OF q refl]]
  have "enhanced_query ?d = Defined (enhanceQuery (query exampleProps) None)"
    by (simp add: exampleProps_def)
  from B [THEN conjunct2, THEN conjunct2, THEN mp, OF this]
  have 2: "enhancedBanner exampleProps
        (fst (fetchResults exampleRuntime exampleProps
                (\<lambda>url. FetchResolved True (BodyObject ?d)) initialState)) = None" .
  from q 1 2 show ?thesis by (intro conjI)
qed

subsection \<open>Pagination\<close>

text \<open>With a positive total, the Previous link is there exactly when the page is greater
  than 1 and the Next link exactly when the page holds at least 20 results; they lead to the
  pages before and after.\<close>

lemma paginationView_links:
  assumes "numGreater (total s) 0"
  shows "\<exists>pages. paginationView rt p s = Some pages
           \<and> (previousLink pages \<noteq> None \<longleftrightarrow> numGreater (pageOf p) 1)
           \<and> (nextLink pages \<noteq> None \<longleftrightarrow> 20 \<le> length (results s))
           \<and> (\<forall>href. previousLink pages = Some href
                 \<longrightarrow> href = pageHref rt p (numPlus (pageOf p) (- 1)))
           \<and> (\<forall>href. nextLink pages = Some href
                 \<longrightarrow> href = pageHref rt p (numPlus (pageOf p) 1))"
  using assms by (simp add: paginationView_def)

text \<open>A numeric filter that is 0 or \<open>NaN\<close> is left out of the link, as if it were not set,
  while the search request carries it.\<close>

lemma numParam_falsy:
  "v = Some (Num 0) \<or> v = Some NaN \<Longrightarrow> numParam rt name v = numParam rt name None"
  by (auto simp: numParam_def)

lemma pageHref_drops_zero_priceMin:
  "priceMin p = Some (Num 0) \<Longrightarrow> pageHref rt p n = pageHref rt (p\<lparr>priceMin := None\<rparr>) n"
  by (simp add: pageHref_def numParam_def sortByOf_def)

lemma searchRequestParams_keeps_priceMin:
  "priceMin p = Some n \<Longrightarrow> (''price_min'', numToString rt n) \<in> set (searchRequestParams rt p)"
  by (simp add: searchRequestParams_def)

text \<open>
  C7 at the search for \<open>paris\<close> with a minimum price of 0, on page 1 of 40 results: the search
  request carries \<open>price_min=0\<close>, the filter panel lists "Price Min: 0" among the active
  filters and applying its filters leads to a URL with \<open>price_min=0\<close>, and the Next
  link is \<^verbatim>\<open>/search?query=paris&page=2&sort_by=relevance\<close>, without the filter.
\<close>

theorem pagination_drops_zero_price_filter:
  "searchRequestParams exampleRuntime (exampleProps\<lparr>priceMin := Some (Num 0)\<rparr>)
     = [(''query'', ''paris''), (''page'', ''1''), (''price_min'', ''0''),
        (''sort_by'', ''relevance'')]
   \<and> activeFilters (initialFilters exampleRuntime (exampleProps\<lparr>priceMin := Some (Num 0)\<rparr>))
     = [(''Price Min'', ''0'')]
   \<and> applyFilters ''paris''
        (initialFilters exampleRuntime (exampleProps\<lparr>priceMin := Some (Num 0)\<rparr>))
     = ''/search?query=paris&price_min=0&sort_by=relevance''
   \<and> paginationView exampleRuntime (exampleProps\<lparr>priceMin := Some (Num 0)\<rparr>)
        (fst (fetchResults exampleRuntime (exampleProps\<lparr>priceMin := Some (Num 0)\<rparr>)
                (\<lambda>url. FetchResolved True (BodyObject exampleResponse)) initialState))
     = Some \<lparr>previousLink = None, currentPage = Num 1,
             nextLink = Some ''/search?query=paris&page=2&sort_by=relevance''\<rparr>"
proof -
  have one: "printInteger (Num 1) = ''1''" and zero: "printInteger (Num 0) = ''0''"
    and two: "printInteger (Num 2) = ''2''"
    by (simp_all add: printInteger_def decimal.simps char_of_eq_iff)
  have enc: "encodeURIComponent ''paris'' = ''paris''"
    by (simp add: encodeURIComponent_def uriUnreserved_def alphanumerics_def)
  have 1: "searchRequestParams exampleRuntime (exampleProps\<lparr>priceMin := Some (Num 0)\<rparr>)
     = [(''query'', ''paris''), (''page'', ''1''), (''price_min'', ''0''),
        (''sort_by'', ''relevance'')]"
    by (simp add: searchRequestParams_def exampleProps_def exampleRuntime_def pageOf_def
        sortByOf_def one zero)
  have 2: "activeFilters (initialFilters exampleRuntime (exampleProps\<lparr>priceMin := Some (Num 0)\<rparr>))
     = [(''Price Min'', ''0'')]"
    by (simp add: activeFilters_def filterChip_def initialFilters_def numValue_def
        exampleProps_def exampleRuntime_def zero)
  have fe: "formEncode ''query'' = ''query''" "formEncode ''paris'' = ''paris''"
    "formEncode ''price_min'' = ''price_min''" "formEncode ''0'' = ''0''"
    "formEncode ''sort_by'' = ''sort_by''" "formEncode ''relevance'' = ''relevance''"
    by (simp_all add: formEncode_def alphanumerics_def)
  have 4: "applyFilters ''paris''
        (initialFilters exampleRuntime (exampleProps\<lparr>priceMin := Some (Num 0)\<rparr>))
     = ''/search?query=paris&price_min=0&sort_by=relevance''"
    by (simp add: applyFilters_def filterParam_def initialFilters_def numValue_def
        exampleProps_def exampleRuntime_def sortByOf_def zero fe)
  have "tryFetch (FetchResolved True (BodyObject exampleResponse)) = Inr exampleResponse"
    by (simp add: tryFetch_def)
  then have s: "fst (fetchResults exampleRuntime (exampleProps\<lparr>priceMin := Some (Num 0)\<rparr>)
                (\<lambda>url. FetchResolved True (BodyObject exampleResponse)) initialState)
        = initialState\<lparr>loading := False, results := replicate 20 exampleResult,
                        total := Num 40,
                        enhancedQuery := Some ''vintage paris postcards''\<rparr>"
    by (simp add: fetchResults_def exampleProps_def Let_def exampleResponse_def
        resultsOrEmpty_def totalOrZero_def enhancedOrNull_def initialState_def)
  have 3: "paginationView exampleRuntime (exampleProps\<lparr>priceMin := Some (Num 0)\<rparr>)
        (fst (fetchResults exampleRuntime (exampleProps\<lparr>priceMin := Some (Num 0)\<rparr>)
                (\<lambda>url. FetchResolved True (BodyObject exampleResponse)) initialState))
     = Some \<lparr>previousLink = None, currentPage = Num 1,
             nextLink = Some ''/search?query=paris&page=2&sort_by=relevance''\<rparr>"
    unfolding s
    by (simp add: paginationView_def pageHref_def numParam_def pageOf_def sortByOf_def
        exampleProps_def exampleRuntime_def initialState_def two enc)
  from 1 2 4 3 show ?thesis by (intro conjI)
qed

subsection \<open>Trimming and URL encoding\<close>

lemma trim_Nil_iff: "trim s = [] \<longleftrightarrow> (\<forall>c \<in> set s. isWhiteSpace c)"
proof -
  have "trim s = [] \<longleftrightarrow> (\<forall>c \<in> set (dropWhile isWhiteSpace s). isWhiteSpace c)"
    by (simp add: trim_def dropWhile_eq_Nil_conv)
  also have "\<dots> \<longleftrightarrow> dropWhile isWhiteSpace s = []"
  proof
    assume all: "\<forall>c \<in> set (dropWhile isWhiteSpace s). isWhiteSpace c"
    show "dropWhile isWhiteSpace s = []"
    proof (rule ccontr)
      assume ne: "dropWhile isWhiteSpace s \<noteq> []"
      then have "\<not> isWhiteSpace (hd (dropWhile isWhiteSpace s))" by (rule hd_dropWhile)
      moreover from ne have "hd (dropWhile isWhiteSpace s) \<in> set (dropWhile isWhiteSpace s)"
        by (rule hd_in_set)
      ultimately show False using all by blast
    qed
  next
    assume "dropWhile isWhiteSpace s = []"
    then show "\<forall>c \<in> set (dropWhile isWhiteSpace s). isWhiteSpace c" by (simp only: list.set ball_empty)
  qed
  also have "\<dots> \<longleftrightarrow> (\<forall>c \<in> set s. isWhiteSpace c)"
    by (simp add: dropWhile_eq_Nil_conv)
  finally show ?thesis .
qed

lemma trim_decomposition:
  "\<exists>pre post. s = pre @ trim s @ post
     \<and> (\<forall>c \<in> set pre. isWhiteSpace c) \<and> (\<forall>c \<in> set post. isWhiteSpace c)"
proof -
  let ?d = "dropWhile isWhiteSpace s"
  let ?pre = "takeWhile isWhiteSpace s"
  let ?post = "rev (takeWhile isWhiteSpace (rev ?d))"
  have "?d = rev (rev ?d)" by simp
  also have "\<dots> = rev (takeWhile isWhiteSpace (rev ?d) @ dropWhile isWhiteSpace (rev ?d))"
    by (simp only: takeWhile_dropWhile_id)
  also have "\<dots> = rev (dropWhile isWhiteSpace (rev ?d)) @ ?post"
    by (rule rev_append)
  finally have d: "?d = trim s @ ?post" unfolding trim_def .
  have "s = ?pre @ ?d" by simp
  with d have "s = ?pre @ trim s @ ?post" by simp
  moreover have "\<forall>c \<in> set ?pre. isWhiteSpace c" by (auto dest: set_takeWhileD)
  moreover have "\<forall>c \<in> set ?post. isWhiteSpace c" by (auto dest: set_takeWhileD)
  ultimately show ?thesis by blast
qed

lemma trim_ends:
  assumes "trim s \<noteq> []"
  shows "\<not> isWhiteSpace (hd (trim s)) \<and> \<not> isWhiteSpace (last (trim s))"
proof -
  let ?d = "dropWhile isWhiteSpace s"
  let ?e = "dropWhile isWhiteSpace (rev ?d)"
  from assms have e: "?e \<noteq> []" by (simp add: trim_def)
  then have "\<not> isWhiteSpace (hd ?e)" by (rule hd_dropWhile)
  with e have l: "\<not> isWhiteSpace (last (trim s))" by (simp add: trim_def last_rev)
  have dne: "?d \<noteq> []"
  proof
    assume "?d = []"
    then have "?e = []" by (simp only: rev.simps dropWhile.simps)
    with e show False ..
  qed
  then have hd: "\<not> isWhiteSpace (hd ?d)" by (rule hd_dropWhile)
  have "?d = rev (rev ?d)" by simp
  also have "\<dots> = rev (takeWhile isWhiteSpace (rev ?d) @ ?e)"
    by (simp only: takeWhile_dropWhile_id)
  also have "\<dots> = rev ?e @ rev (takeWhile isWhiteSpace (rev ?d))"
    by (rule rev_append)
  finally have "?d = trim s @ rev (takeWhile isWhiteSpace (rev ?d))" unfolding trim_def .
  then have "hd ?d = hd (trim s @ rev (takeWhile isWhiteSpace (rev ?d)))" by simp
  with assms have "hd ?d = hd (trim s)" by simp
  with hd l show ?thesis by simp
qed

lemma hexValue_hexDigit_upto: "\<forall>m \<in> set [0..<16]. hexValue (hexDigit m) = Some m"
  by code_simp

lemma hexValue_hexDigit: "hexValue (hexDigit k) = Some (k mod 16)"
proof -
  have "k mod 16 \<in> set [0..<16]" by simp
  with hexValue_hexDigit_upto have "hexValue (hexDigit (k mod 16)) = Some (k mod 16)" by blast
  then show ?thesis by (simp add: hexDigit_def)
qed

lemma byte_from_nibbles: "b < 256 \<Longrightarrow> 16 * (b div 16 mod 16) + b mod 16 = (b::nat)"
proof -
  assume "b < 256"
  then have "b div 16 < 16" by (simp add: div_less_iff_less_mult)
  then have "b div 16 mod 16 = b div 16" by simp
  then show ?thesis by simp
qed

lemma lead_byte:
  "128 \<le> n \<Longrightarrow> n < 256 \<Longrightarrow> 192 + n div 64 = 194 \<or> 192 + n div 64 = (195::nat)"
proof -
  assume a: "128 \<le> n" and b: "n < 256"
  from a have "128 div 64 \<le> n div 64" by (rule div_le_mono)
  then have lo: "2 \<le> n div 64" by simp
  from b have hi: "n div 64 < 4" by (simp add: div_less_iff_less_mult)
  from lo hi show ?thesis by linarith
qed

lemma decode_percentEncodeByte_ascii:
  assumes "b < 128"
  shows "decodeURIComponent (percentEncodeByte b @ r)
           = map_option ((#) (char_of b)) (decodeURIComponent r)"
proof -
  from assms have "16 * (b div 16 mod 16) + b mod 16 = b" by (intro byte_from_nibbles) simp
  with assms show ?thesis
    by (simp add: percentEncodeByte_def decodeURIComponent.simps(2) hexValue_hexDigit)
qed

lemma decode_percentEncodeByte_pair:
  assumes "b1 = 194 \<or> b1 = 195" and "128 \<le> b2" and "b2 < 192"
  shows "decodeURIComponent (percentEncodeByte b1 @ percentEncodeByte b2 @ r)
           = map_option ((#) (char_of ((b1 - 192) * 64 + (b2 - 128)))) (decodeURIComponent r)"
proof -
  from assms(1) have 1: "16 * (b1 div 16 mod 16) + b1 mod 16 = b1"
    by (intro byte_from_nibbles) auto
  from assms(3) have 2: "16 * (b2 div 16 mod 16) + b2 mod 16 = b2"
    by (intro byte_from_nibbles) simp
  from assms(1) have n1: "\<not> b1 < 128" by auto
  show ?thesis
    using assms n1
    by (simp add: percentEncodeByte_def decodeURIComponent.simps(2) hexValue_hexDigit 1 2)
qed

lemma decode_percentEncode:
  "decodeURIComponent (percentEncode c @ r) = map_option ((#) c) (decodeURIComponent r)"
proof (cases "(of_char c :: nat) < 128")
  case True
  then show ?thesis
    using decode_percentEncodeByte_ascii [of "of_char c" r]
    by (simp add: percentEncode_def utf8Bytes_def)
next
  case False
  let ?n = "of_char c :: nat"
  have lt: "?n < 256" by simp
  from False have "128 \<le> ?n" by simp
  from lead_byte [OF this lt] have b1: "192 + ?n div 64 = 194 \<or> 192 + ?n div 64 = 195" .
  have b2: "128 \<le> 128 + ?n mod 64" "128 + ?n mod 64 < 192" by simp_all
  have recombine: "(192 + ?n div 64 - 192) * 64 + (128 + ?n mod 64 - 128) = ?n" by simp
  from decode_percentEncodeByte_pair [OF b1 b2, of r] False show ?thesis
    by (simp add: percentEncode_def utf8Bytes_def Let_def recombine del: of_char_mod_256)
qed

lemma percent_reserved: "CHR ''%'' \<notin> set uriUnreserved"
  by (simp add: uriUnreserved_def alphanumerics_def)

text \<open>An encoded query can be read back: \<^verbatim>\<open>decodeURIComponent\<close> undoes
  \<^verbatim>\<open>encodeURIComponent\<close>, so the encoding loses nothing of the query.\<close>

lemma decode_encodeURIComponent: "decodeURIComponent (encodeURIComponent s) = Some s"
proof (induction s)
  case Nil
  show ?case by (simp add: encodeURIComponent_def)
next
  case (Cons c s)
  have step: "encodeURIComponent (c # s)
                = (if c \<in> set uriUnreserved then [c] else percentEncode c) @ encodeURIComponent s"
    by (simp add: encodeURIComponent_def)
  show ?case
  proof (cases "c \<in> set uriUnreserved")
    case True
    with percent_reserved have "c \<noteq> CHR ''%''" by blast
    with True show ?thesis by (simp add: step decodeURIComponent.simps(2) Cons.IH)
  next
    case False
    then show ?thesis by (simp add: step decode_percentEncode Cons.IH)
  qed
qed

lemma encodeURIComponent_inj: "encodeURIComponent a = encodeURIComponent b \<Longrightarrow> a = b"
proof -
  assume "encodeURIComponent a = encodeURIComponent b"
  then have "decodeURIComponent (encodeURIComponent a) = decodeURIComponent (encodeURIComponent b)"
    by simp
  then show "a = b" by (simp add: decode_encodeURIComponent)
qed

text \<open>
  C8. If the query is empty or all of it is white space, \<open>handleSubmit\<close> does not navigate and
  returns the state as it was. Otherwise it navigates to \<^verbatim>\<open>/search?query=\<close> followed by the
  URL-encoded trimmed query, and closes the suggestions; the trimmed query is the query
  without the white space at its two ends, and decoding the parameter gives it back.
\<close>

theorem handleSubmit_trimmed_query:
  "((\<forall>c \<in> set (form_query s). isWhiteSpace c) \<longrightarrow> handleSubmit s = (s, None))
   \<and> (\<not> (\<forall>c \<in> set (form_query s). isWhiteSpace c)
        \<longrightarrow> handleSubmit s =
              (s\<lparr>showSuggestions := False\<rparr>,
               Some (''/search?query='' @ encodeURIComponent (trim (form_query s))))
            \<and> (\<exists>pre post. form_query s = pre @ trim (form_query s) @ post
                  \<and> (\<forall>c \<in> set pre. isWhiteSpace c) \<and> (\<forall>c \<in> set post. isWhiteSpace c))
            \<and> \<not> isWhiteSpace (hd (trim (form_query s)))
            \<and> \<not> isWhiteSpace (last (trim (form_query s))))
   \<and> decodeURIComponent (encodeURIComponent (trim (form_query s))) = Some (trim (form_query s))"
proof -
  have A: "handleSubmit s = (s, None)" if "\<forall>c \<in> set (form_query s). isWhiteSpace c"
    using that by (simp add: handleSubmit_def trim_Nil_iff)
  have B: "handleSubmit s =
              (s\<lparr>showSuggestions := False\<rparr>,
               Some (''/search?query='' @ encodeURIComponent (trim (form_query s))))
            \<and> (\<exists>pre post. form_query s = pre @ trim (form_query s) @ post
                  \<and> (\<forall>c \<in> set pre. isWhiteSpace c) \<and> (\<forall>c \<in> set post. isWhiteSpace c))
            \<and> \<not> isWhiteSpace (hd (trim (form_query s)))
            \<and> \<not> isWhiteSpace (last (trim (form_query s)))"
    if "\<not> (\<forall>c \<in> set (form_query s). isWhiteSpace c)"
  proof -
    from that have ne: "trim (form_query s) \<noteq> []" by (simp add: trim_Nil_iff)
    then have 1: "handleSubmit s =
              (s\<lparr>showSuggestions := False\<rparr>,
               Some (''/search?query='' @ encodeURIComponent (trim (form_query s))))"
      by (simp add: handleSubmit_def)
    from 1 trim_decomposition [of "form_query s"] trim_ends [OF ne] show ?thesis
      by (intro conjI) simp_all
  qed
  from A B decode_encodeURIComponent [of "trim (form_query s)"] show ?thesis by blast
qed

text \<open>C8 for a query of three spaces, and for \<open>New York\<close> with spaces around it.\<close>

theorem handleSubmit_trimmed_query_witness:
  "handleSubmit \<lparr>form_query = ''   '', suggestions = [], showSuggestions = True,
                  isLoading = False\<rparr>
     = (\<lparr>form_query = ''   '', suggestions = [], showSuggestions = True, isLoading = False\<rparr>,
        None)
   \<and> handleSubmit \<lparr>form_query = ''  New York '', suggestions = [], showSuggestions = True,
                    isLoading = False\<rparr>
     = (\<lparr>form_query = ''  New York '', suggestions = [], showSuggestions = False,
         isLoading = False\<rparr>,
        Some ''/search?query=New%20York'')"
proof -
  let ?blank = "\<lparr>form_query = ''   '', suggestions = [], showSuggestions = True,
                 isLoading = False\<rparr>"
  let ?s = "\<lparr>form_query = ''  New York '', suggestions = [], showSuggestions = True,
             isLoading = False\<rparr>"
  have a: "\<forall>c \<in> set (form_query ?blank). isWhiteSpace c" by (simp add: isWhiteSpace_def)
  have b: "\<not> (\<forall>c \<in> set (form_query ?s). isWhiteSpace c)" by (simp add: isWhiteSpace_def)
  have t: "trim ''  New York '' = ''New York''" by (simp add: trim_def isWhiteSpace_def)
  have e: "encodeURIComponent ''New York'' = ''New%20York''"
    by (simp add: encodeURIComponent_def uriUnreserved_def alphanumerics_def percentEncode_def
        utf8Bytes_def percentEncodeByte_def hexDigit_def)
  have 1: "handleSubmit ?blank = (?blank, None)"
    using handleSubmit_trimmed_query [of ?blank, THEN conjunct1, THEN mp, OF a] .
  have "handleSubmit ?s =
          (?s\<lparr>showSuggestions := False\<rparr>,
           Some (''/search?query='' @ encodeURIComponent (trim (form_query ?s))))"
    using handleSubmit_trimmed_query
            [of ?s, THEN conjunct2, THEN conjunct1, THEN mp, OF b, THEN conjunct1] .
  then have 2: "handleSubmit ?s =
          (\<lparr>form_query = ''  New York '', suggestions = [], showSuggestions = False,
            isLoading = False\<rparr>, Some ''/search?query=New%20York'')"
    by (simp add: t e)
  from 1 2 show ?thesis by (intro conjI)
qed

subsection \<open>Resetting the filters\<close>

lemma hexDigit_in_digits: "hexDigit n \<in> set ''0123456789ABCDEF''"
proof -
  have "n mod 16 < length ''0123456789ABCDEF''" by simp
  then show ?thesis unfolding hexDigit_def by (rule nth_mem)
qed

lemma percentEncode_chars:
  "set (percentEncode c) \<subseteq> insert CHR ''%'' (set ''0123456789ABCDEF'')"
proof -
  have "set (percentEncodeByte b) \<subseteq> insert CHR ''%'' (set ''0123456789ABCDEF'')" for b
  proof -
    have "set (percentEncodeByte b) = {CHR ''%'', hexDigit (b div 16), hexDigit b}"
      unfolding percentEncodeByte_def by (simp only: list.set)
    with hexDigit_in_digits [of b] hexDigit_in_digits [of "b div 16"] show ?thesis
      by blast
  qed
  then show ?thesis unfolding percentEncode_def by (simp only: set_concat set_map) blast
qed

lemma encodeURIComponent_chars:
  "set (encodeURIComponent s) \<subseteq> insert CHR ''%'' (set uriUnreserved)"
proof -
  have "set ''0123456789ABCDEF'' \<subseteq> set uriUnreserved"
    by (simp add: uriUnreserved_def alphanumerics_def)
  with percentEncode_chars have "set (percentEncode c) \<subseteq> insert CHR ''%'' (set uriUnreserved)" for c
    by blast
  then show ?thesis by (auto simp: encodeURIComponent_def)
qed

lemma encodeURIComponent_no_separator:
  "set (encodeURIComponent s) \<inter> set ''&=?#+ '' = {}"
proof -
  have "insert CHR ''%'' (set uriUnreserved) \<inter> set ''&=?#+ '' = {}"
    by (simp add: uriUnreserved_def alphanumerics_def)
  with encodeURIComponent_chars [of s] show ?thesis by blast
qed

text \<open>
  C9. \<open>resetFilters\<close> empties the five filter fields, sets the sort order to \<open>relevance\<close>, so
  that no filter is active, and navigates to \<^verbatim>\<open>/search?query=\<close> followed by the URL-encoded
  query of the panel. The encoded query has no \<^verbatim>\<open>&\<close>, \<^verbatim>\<open>=\<close>, \<^verbatim>\<open>?\<close> or \<^verbatim>\<open>#\<close> in it, so
  the URL has the parameter \<open>query\<close> and no other, and decoding the parameter gives the query
  back unchanged.
\<close>

theorem resetFilters_only_query:
  "resetFilters q fs =
     (\<lparr>yearMinValue = [], yearMaxValue = [], locationValue = [], priceMinValue = [],
       priceMaxValue = [], sortByValue = ''relevance''\<rparr>,
      ''/search?query='' @ encodeURIComponent q)
   \<and> activeFilters (fst (resetFilters q fs)) = []
   \<and> set (encodeURIComponent q) \<inter> set ''&=?#'' = {}
   \<and> decodeURIComponent (encodeURIComponent q) = Some q"
proof -
  have 1: "resetFilters q fs =
     (\<lparr>yearMinValue = [], yearMaxValue = [], locationValue = [], priceMinValue = [],
       priceMaxValue = [], sortByValue = ''relevance''\<rparr>,
      ''/search?query='' @ encodeURIComponent q)"
    by (simp add: resetFilters_def)
  have 2: "activeFilters (fst (resetFilters q fs)) = []"
    by (simp add: resetFilters_def activeFilters_def filterChip_def)
  have 3: "set (encodeURIComponent q) \<inter> set ''&=?#'' = {}"
    using encodeURIComponent_no_separator [of q] by auto
  from 1 2 3 decode_encodeURIComponent [of q] show ?thesis by (intro conjI)
qed

text \<open>C9 for the query \<open>Tom & Jerry\<close> with every filter set.\<close>

theorem resetFilters_only_query_witness:
  "resetFilters ''Tom & Jerry''
     \<lparr>yearMinValue = ''1900'', yearMaxValue = ''1950'', locationValue = ''Paris'',
      priceMinValue = ''5'', priceMaxValue = ''50'', sortByValue = ''price_asc''\<rparr>
   = (\<lparr>yearMinValue = [], yearMaxValue = [], locationValue = [], priceMinValue = [],
       priceMaxValue = [], sortByValue = ''relevance''\<rparr>,
      ''/search?query=Tom%20%26%20Jerry'')"
proof -
  have e: "encodeURIComponent ''Tom & Jerry'' = ''Tom%20%26%20Jerry''"
    by (simp add: encodeURIComponent_def uriUnreserved_def alphanumerics_def percentEncode_def
        utf8Bytes_def percentEncodeByte_def hexDigit_def)
  show ?thesis
    using resetFilters_only_query [of "''Tom & Jerry''", THEN conjunct1] by (simp add: e)
qed

subsection \<open>The search page\<close>

text \<open>
  C10. When the page URL has no \<open>query\<close> parameter, or an empty one, the page shows the prompt
  screen, so the result list is not mounted and the page load issues no search request; and
  \<open>fetchResults\<close> itself returns at once for an empty query, with the state unchanged and no
  request. When the \<open>page\<close> parameter is absent the page number is 1, and when the
  \<open>sort_by\<close> parameter is absent the sort order is \<open>relevance\<close>.
\<close>

theorem SearchPage_without_query:
  "(params ''query'' = None \<or> params ''query'' = Some (Single [])
      \<longrightarrow> SearchPage rt params = \<lparr>initialQuery = [], body = PromptScreen\<rparr>
          \<and> searchRequestsOnLoad rt net params = [])
   \<and> (query p = [] \<longrightarrow> fetchResults rt p net s = (s, []))
   \<and> (params ''page'' = None \<longrightarrow> pageOf (pageProps rt params) = Num 1)
   \<and> (params ''sort_by'' = None \<longrightarrow> sortByOf (pageProps rt params) = ''relevance'')"
proof -
  have 1: "SearchPage rt params = \<lparr>initialQuery = [], body = PromptScreen\<rparr>
          \<and> searchRequestsOnLoad rt net params = []"
    if "params ''query'' = None \<or> params ''query'' = Some (Single [])"
  proof -
    from that have "query (pageProps rt params) = []"
      by (auto simp: pageProps_def stringParam_def)
    then have "SearchPage rt params = \<lparr>initialQuery = [], body = PromptScreen\<rparr>"
      by (simp add: SearchPage_def Let_def)
    then show ?thesis by (simp add: searchRequestsOnLoad_def)
  qed
  have 2: "fetchResults rt p net s = (s, [])" if "query p = []"
    using that by (simp add: fetchResults_def)
  have 3: "pageOf (pageProps rt params) = Num 1" if "params ''page'' = None"
    using that by (simp add: pageOf_def pageProps_def stringParam_def)
  have 4: "sortByOf (pageProps rt params) = ''relevance''" if "params ''sort_by'' = None"
    using that by (simp add: sortByOf_def pageProps_def stringParam_def)
  from 1 2 3 4 show ?thesis by blast
qed

text \<open>C10 for the page URL without parameters, and for the parameter \<open>query\<close> alone.\<close>

theorem SearchPage_without_query_witness:
  "Map.empty ''query'' = None
   \<and> SearchPage exampleRuntime Map.empty = \<lparr>initialQuery = [], body = PromptScreen\<rparr>
   \<and> searchRequestsOnLoad exampleRuntime (\<lambda>url. FetchRejected) Map.empty = []
   \<and> query (exampleProps\<lparr>query := []\<rparr>) = []
   \<and> fetchResults exampleRuntime (exampleProps\<lparr>query := []\<rparr>) (\<lambda>url. FetchRejected) initialState
     = (initialState, [])
   \<and> [''query'' \<mapsto> Single ''paris''] ''page'' = None
   \<and> [''query'' \<mapsto> Single ''paris''] ''sort_by'' = None
   \<and> pageOf (pageProps exampleRuntime [''query'' \<mapsto> Single ''paris'']) = Num 1
   \<and> sortByOf (pageProps exampleRuntime [''query'' \<mapsto> Single ''paris'']) = ''relevance''"
proof -
  let ?params = "[''query'' \<mapsto> Single ''paris'']"
  have a: "Map.empty ''query'' = None \<or> Map.empty ''query'' = Some (Single [])" by simp
  have b: "query (exampleProps\<lparr>query := []\<rparr>) = []" by simp
  have c: "?params ''page'' = None" by simp
  have d: "?params ''sort_by'' = None" by simp
  note T = SearchPage_without_query
  from T [where params = Map.empty and rt = exampleRuntime and net = "\<lambda>url. FetchRejected",
          THEN conjunct1, THEN mp, OF a]
  have 1: "SearchPage exampleRuntime Map.empty = \<lparr>initialQuery = [], body = PromptScreen\<rparr>
           \<and> searchRequestsOnLoad exampleRuntime (\<lambda>url. FetchRejected) Map.empty = []" .
  from T [where p = "exampleProps\<lparr>query := []\<rparr>" and rt = exampleRuntime
            and net = "\<lambda>url. FetchRejected" and s = initialState,
          THEN conjunct2, THEN conjunct1, THEN mp, OF b]
  have 2: "fetchResults exampleRuntime (exampleProps\<lparr>query := []\<rparr>) (\<lambda>url. FetchRejected)
             initialState = (initialState, [])" .
  from T [where params = ?params and rt = exampleRuntime,
          THEN conjunct2, THEN conjunct2, THEN conjunct1, THEN mp, OF c]
  have 3: "pageOf (pageProps exampleRuntime ?params) = Num 1" .
  from T [where params = ?params and rt = exampleRuntime,
          THEN conjunct2, THEN conjunct2, THEN conjunct2, THEN mp, OF d]
  have 4: "sortByOf (pageProps exampleRuntime ?params) = ''relevance''" .
  from 1 b 2 c d 3 4 show ?thesis by simp
qed

end
